theory Spec2Isabelle
  imports Main "HOL-Library.Sublist" "HOL-Library.List_Lexorder" "HOL-Library.Code_Target_Nat"
begin

section \<open>JavaScript values used by fetchOperators.js\<close>

text \<open>
  A JavaScript string is a sequence of UTF-16 code units. A code unit is modelled as a
  natural number, so \<open>length\<close> is the string's \<open>.length\<close> and the order of
  \<open>HOL-Library.List_Lexorder\<close> is the order \<open>Array.prototype.sort()\<close> uses without a
  comparator. \<open>js\<close> writes an ASCII literal.
\<close>

type_synonym jstring = "nat list"

definition js :: "string \<Rightarrow> jstring" where
  "js s = map of_char s"

text \<open>
  The numbers of this program are star counts and \<open>Number(digits)\<close>: non-negative
  integers held in a double, or \<open>Infinity\<close>.
\<close>

datatype jsnum = Fin nat | Infinity

datatype jsval =
    Undefined
  | Null
  | Str jstring
  | Num jsnum
  | Obj "(string \<times> jsval) list"

text \<open>ToBoolean, as \<open>if (x)\<close>, \<open>!x\<close>, \<open>x || y\<close> and \<open>c ? a : b\<close> apply it.\<close>

fun truthy :: "jsval \<Rightarrow> bool" where
  "truthy Undefined = False"
| "truthy Null = False"
| "truthy (Str s) = (s \<noteq> [])"
| "truthy (Num (Fin n)) = (n \<noteq> 0)"
| "truthy (Num Infinity) = True"
| "truthy (Obj kvs) = True"

text \<open>\<open>a || b\<close> on values, and on two strings.\<close>

definition or_else :: "jsval \<Rightarrow> jsval \<Rightarrow> jsval" where
  "or_else a b = (if truthy a then a else b)"

definition or_str :: "jstring \<Rightarrow> jstring \<Rightarrow> jstring" where
  "or_str a b = (if a \<noteq> [] then a else b)"

text \<open>Reading property \<open>k\<close> of an object: \<open>undefined\<close> when the object has no such property.\<close>

fun get :: "jsval \<Rightarrow> string \<Rightarrow> jsval" where
  "get (Obj kvs) k = (case map_of kvs k of Some v \<Rightarrow> v | None \<Rightarrow> Undefined)"
| "get v k = Undefined"

subsection \<open>String methods\<close>

text \<open>
  WhiteSpace and LineTerminator of ECMAScript: what \<open>trim()\<close> strips and what the
  regular expression class \<open>\s\<close> matches.
\<close>

definition isWhiteSpace :: "nat \<Rightarrow> bool" where
  "isWhiteSpace c \<longleftrightarrow>
     (if c < 128 then c = 32 \<or> (9 \<le> c \<and> c \<le> 13)
      else c = 160 \<or> c = 5760 \<or> (8192 \<le> c \<and> c \<le> 8202) \<or> c = 8232 \<or> c = 8233 \<or>
           c = 8239 \<or> c = 8287 \<or> c = 12288 \<or> c = 65279)"

definition trim :: "jstring \<Rightarrow> jstring" where
  "trim s = rev (dropWhile isWhiteSpace (rev (dropWhile isWhiteSpace s)))"

definition startsWith :: "jstring \<Rightarrow> jstring \<Rightarrow> bool" where
  "startsWith s p = prefix p s"

definition endsWith :: "jstring \<Rightarrow> jstring \<Rightarrow> bool" where
  "endsWith s p = suffix p s"

definition str_includes :: "jstring \<Rightarrow> jstring \<Rightarrow> bool" where
  "str_includes s p = sublist p s"

text \<open>
  \<open>s.replace(pat, rep)\<close> with a string pattern: the first occurrence of \<open>pat\<close> is
  replaced, and an empty \<open>pat\<close> occurs at the start. The program's only replacement
  text is the empty string, which has no \<open>$\<close> patterns.
\<close>

fun replace :: "jstring \<Rightarrow> jstring \<Rightarrow> jstring \<Rightarrow> jstring" where
  "replace [] pat rep = (if pat = [] then rep else [])"
| "replace (c # cs) pat rep =
     (if prefix pat (c # cs) then rep @ drop (length pat) (c # cs)
      else c # replace cs pat rep)"

text \<open>\<open>s.replace(/\s+/g, " ")\<close>: every maximal run of white space becomes one space.\<close>

function collapse :: "jstring \<Rightarrow> jstring" where
  "collapse [] = []"
| "collapse (c # cs) =
     (if isWhiteSpace c then 32 # collapse (dropWhile isWhiteSpace cs) else c # collapse cs)"
  by pat_completeness auto
termination
  by (relation "measure length") (auto simp: length_dropWhile_le less_Suc_eq_le)

subsection \<open>The regular expressions of the program\<close>

definition isDigit :: "nat \<Rightarrow> bool" where
  "isDigit c \<longleftrightarrow> 48 \<le> c \<and> c \<le> 57"

text \<open>
  A pattern that is a fixed sequence of character classes, such as \<open>/\d{4}/\<close>:
  \<open>match_here\<close> tests it at the start of the text, \<open>match_first\<close> is
  \<open>s.match(re)\<close>, the leftmost match or \<open>None\<close> for \<open>null\<close>.
\<close>

fun match_here :: "(nat \<Rightarrow> bool) list \<Rightarrow> jstring \<Rightarrow> bool" where
  "match_here [] s = True"
| "match_here (p # ps) [] = False"
| "match_here (p # ps) (c # cs) = (p c \<and> match_here ps cs)"

fun match_first :: "(nat \<Rightarrow> bool) list \<Rightarrow> jstring \<Rightarrow> jstring option" where
  "match_first ps [] = (if ps = [] then Some [] else None)"
| "match_first ps (c # cs) =
     (if match_here ps (c # cs) then Some (take (length ps) (c # cs))
      else match_first ps cs)"

definition isDash :: "nat \<Rightarrow> bool" where
  "isDash c \<longleftrightarrow> c = 45"

text \<open>\<open>/\d{4}-\d{2}-\d{2}/\<close> and \<open>/\d{4}/\<close>.\<close>

definition re_iso :: "(nat \<Rightarrow> bool) list" where
  "re_iso = [isDigit, isDigit, isDigit, isDigit, isDash, isDigit, isDigit, isDash,
             isDigit, isDigit]"

definition re_year :: "(nat \<Rightarrow> bool) list" where
  "re_year = [isDigit, isDigit, isDigit, isDigit]"

text \<open>\<open>s.match(/\d+/)\<close>: the leftmost digit, extended as far as digits go.\<close>

definition match_digits :: "jstring \<Rightarrow> jstring option" where
  "match_digits s =
     (case dropWhile (\<lambda>c. \<not> isDigit c) s of
        [] \<Rightarrow> None
      | d # ds \<Rightarrow> Some (takeWhile isDigit (d # ds)))"

text \<open>The length of the global match of the star glyph: the number of U+2605 in \<open>s\<close>.\<close>

definition star_count :: "jstring \<Rightarrow> nat" where
  "star_count s = length (filter (\<lambda>c. c = 9733) s)"

text \<open>
  The test of the class \<open>[A-Za-z]\<close> extended by the code units U+00C0 to U+024F:
  some code unit of \<open>s\<close> is such a letter.
\<close>

definition isLetter :: "nat \<Rightarrow> bool" where
  "isLetter c \<longleftrightarrow> (65 \<le> c \<and> c \<le> 90) \<or> (97 \<le> c \<and> c \<le> 122) \<or> (192 \<le> c \<and> c \<le> 591)"

definition has_letter :: "jstring \<Rightarrow> bool" where
  "has_letter s = list_ex isLetter s"

text \<open>\<open>h.match(/Operator(s)?$/)\<close>, as a truth value: without the \<open>m\<close> flag \<open>$\<close> is the end of the text.\<close>

definition ends_Operator :: "jstring \<Rightarrow> bool" where
  "ends_Operator h \<longleftrightarrow> endsWith h (js ''Operator'') \<or> endsWith h (js ''Operators'')"

subsection \<open>Number(digits)\<close>

text \<open>
  \<open>Number\<close> of a string of decimal digits is the double nearest to its value, ties to
  the even significand, and \<open>Infinity\<close> where that rounding reaches \<open>2 ^ 1024\<close>. Below
  \<open>2 ^ 53\<close> every integer is a double. (The standard lets an implementation drop the
  digits after the twentieth before rounding; this changes neither which strings give
  0 nor that \<open>10 ^ 309\<close> gives \<open>Infinity\<close>.)
\<close>

definition decimal_value :: "jstring \<Rightarrow> nat" where
  "decimal_value ds = foldl (\<lambda>a c. 10 * a + (c - 48)) 0 ds"

fun bitlen :: "nat \<Rightarrow> nat" where
  "bitlen n = (if n = 0 then 0 else Suc (bitlen (n div 2)))"

declare bitlen.simps [simp del]

definition to_double :: "nat \<Rightarrow> jsnum" where
  "to_double n =
     (if n < 2 ^ 53 then Fin n
      else
        let e = bitlen n - 53;
            q = n div 2 ^ e;
            r = n mod 2 ^ e;
            q' = (if 2 ^ e < 2 * r \<or> (2 * r = 2 ^ e \<and> odd q) then q + 1 else q)
        in if 2 ^ 1024 \<le> q' * 2 ^ e then Infinity else Fin (q' * 2 ^ e))"

definition Number :: "jstring \<Rightarrow> jsnum" where
  "Number ds = to_double (decimal_value ds)"

section \<open>The parsed page and the cheerio operations the program calls\<close>

text \<open>
  \<open>cheerio.load(html)\<close> gives a tree of elements and text nodes; the model starts from
  that tree (comments and other nodes carry no text and are no elements, so they are
  left out). A document is the list of its top nodes.
\<close>

datatype node =
    TextNode jstring
  | Element jstring "(jstring \<times> jstring) list" "node list"

fun tagName :: "node \<Rightarrow> jstring" where
  "tagName (Element t as cs) = t"
| "tagName (TextNode d) = []"

fun attribs :: "node \<Rightarrow> (jstring \<times> jstring) list" where
  "attribs (Element t as cs) = as"
| "attribs (TextNode d) = []"

fun childNodes :: "node \<Rightarrow> node list" where
  "childNodes (Element t as cs) = cs"
| "childNodes (TextNode d) = []"

fun isElement :: "node \<Rightarrow> bool" where
  "isElement (Element t as cs) = True"
| "isElement (TextNode d) = False"

text \<open>The text of a node: its own data, or the texts of its children in order.\<close>

fun textContent :: "node \<Rightarrow> jstring" where
  "textContent (TextNode d) = d"
| "textContent (Element t as cs) = concat (map textContent cs)"

text \<open>
  The text that the selector engine reads for \<open>:contains\<close>: as \<open>textContent\<close>, but a
  \<open>br\<close> element counts as a line feed.
\<close>

fun getText :: "node \<Rightarrow> jstring" where
  "getText (TextNode d) = d"
| "getText (Element t as cs) = (if t = js ''br'' then [10] else concat (map getText cs))"

text \<open>
  An element of a selection is a place in the tree: the element, its ancestors from the
  parent upwards, and the sibling nodes that follow it.
\<close>

record elem =
  self :: node
  ancestors :: "node list"
  following :: "node list"

fun node_size :: "node \<Rightarrow> nat" where
  "node_size (TextNode d) = 1"
| "node_size (Element t as cs) = Suc (sum_list (map node_size cs))"

text \<open>All elements below a list of sibling nodes, in document order.\<close>

function elements :: "node list \<Rightarrow> node list \<Rightarrow> elem list" where
  "elements anc [] = []"
| "elements anc (TextNode d # rest) = elements anc rest"
| "elements anc (Element t as cs # rest) =
     \<lparr>self = Element t as cs, ancestors = anc, following = rest\<rparr>
       # elements (Element t as cs # anc) cs @ elements anc rest"
  by pat_completeness auto
termination
  by (relation "measure (\<lambda>(anc, ns). sum_list (map node_size ns))") auto

text \<open>\<open>$(selector)\<close> over the document, and \<open>$(el).find(selector)\<close> below one element.\<close>

definition select :: "(elem \<Rightarrow> bool) \<Rightarrow> node list \<Rightarrow> elem list" where
  "select P doc = filter P (elements [] doc)"

definition find_in :: "(elem \<Rightarrow> bool) \<Rightarrow> elem \<Rightarrow> elem list" where
  "find_in P e = filter P (elements (self e # ancestors e) (childNodes (self e)))"

definition find_all :: "(elem \<Rightarrow> bool) \<Rightarrow> elem list \<Rightarrow> elem list" where
  "find_all P sel = concat (map (find_in P) sel)"

text \<open>\<open>.first()\<close>, \<open>.text()\<close> and \<open>.attr(name)\<close> of a selection; \<open>None\<close> is \<open>undefined\<close>.\<close>

definition first :: "elem list \<Rightarrow> elem list" where
  "first sel = take 1 sel"

definition text_of :: "elem list \<Rightarrow> jstring" where
  "text_of sel = concat (map (\<lambda>e. textContent (self e)) sel)"

definition attr :: "elem list \<Rightarrow> jstring \<Rightarrow> jstring option" where
  "attr sel name = (case sel of [] \<Rightarrow> None | e # es \<Rightarrow> map_of (attribs (self e)) name)"

text \<open>
  \<open>.next()\<close>: the element sibling that follows, text nodes skipped; \<open>.next(selector)\<close>
  keeps it when it matches. Both are called on selections of at most one element.
\<close>

fun next_element :: "node list \<Rightarrow> node list \<Rightarrow> elem list" where
  "next_element anc [] = []"
| "next_element anc (TextNode d # rest) = next_element anc rest"
| "next_element anc (Element t as cs # rest) =
     [\<lparr>self = Element t as cs, ancestors = anc, following = rest\<rparr>]"

definition next_sibling :: "elem list \<Rightarrow> elem list" where
  "next_sibling sel = concat (map (\<lambda>e. next_element (ancestors e) (following e)) sel)"

definition next_matching :: "(elem \<Rightarrow> bool) \<Rightarrow> elem list \<Rightarrow> elem list" where
  "next_matching P sel = filter P (next_sibling sel)"

text \<open>\<open>$(el).children()\<close>: the element children.\<close>

definition children :: "elem \<Rightarrow> node list" where
  "children e = filter isElement (childNodes (self e))"

subsection \<open>Selectors\<close>

text \<open>The words of a \<open>class\<close> attribute, separated by white space.\<close>

fun tokens :: "jstring \<Rightarrow> jstring \<Rightarrow> jstring list" where
  "tokens cur [] = (if cur = [] then [] else [cur])"
| "tokens cur (c # cs) =
     (if isWhiteSpace c then (if cur = [] then tokens [] cs else cur # tokens [] cs)
      else tokens (cur @ [c]) cs)"

definition node_hasClass :: "jstring \<Rightarrow> node \<Rightarrow> bool" where
  "node_hasClass c n =
     (case map_of (attribs n) (js ''class'') of
        None \<Rightarrow> False
      | Some v \<Rightarrow> c \<in> set (tokens [] v))"

definition node_hasId :: "jstring \<Rightarrow> node \<Rightarrow> bool" where
  "node_hasId i n = (map_of (attribs n) (js ''id'') = Some i)"

text \<open>\<open>.c\<close>, \<open>#i\<close>, \<open>t\<close> and \<open>t[a="v"]\<close>.\<close>

definition hasClass :: "jstring \<Rightarrow> elem \<Rightarrow> bool" where
  "hasClass c e = node_hasClass c (self e)"

definition hasId :: "jstring \<Rightarrow> elem \<Rightarrow> bool" where
  "hasId i e = node_hasId i (self e)"

definition hasTag :: "jstring \<Rightarrow> elem \<Rightarrow> bool" where
  "hasTag t e = (tagName (self e) = t)"

definition attr_equals :: "jstring \<Rightarrow> jstring \<Rightarrow> elem \<Rightarrow> bool" where
  "attr_equals a v e = (map_of (attribs (self e)) a = Some v)"

text \<open>\<open>[a^='v']\<close>: the attribute is there and starts with \<open>v\<close>.\<close>

definition attr_startsWith :: "jstring \<Rightarrow> jstring \<Rightarrow> elem \<Rightarrow> bool" where
  "attr_startsWith a v e =
     (case map_of (attribs (self e)) a of None \<Rightarrow> False | Some x \<Rightarrow> startsWith x v)"

text \<open>
  The descendant combinator: \<open>inside [p\<^sub>1, p\<^sub>2, ...] e\<close> holds when \<open>e\<close> has an ancestor
  satisfying \<open>p\<^sub>1\<close>, which has an ancestor satisfying \<open>p\<^sub>2\<close>, and so on.
\<close>

fun chain :: "(node \<Rightarrow> bool) list \<Rightarrow> node list \<Rightarrow> bool" where
  "chain [] anc = True"
| "chain (p # ps) [] = False"
| "chain (p # ps) (a # anc) = ((p a \<and> chain ps anc) \<or> chain (p # ps) anc)"

definition inside :: "(node \<Rightarrow> bool) list \<Rightarrow> elem \<Rightarrow> bool" where
  "inside ps e = chain ps (ancestors e)"

text \<open>\<open>*:contains("t")\<close>: any element whose text includes \<open>t\<close>.\<close>

definition contains_text :: "jstring \<Rightarrow> elem \<Rightarrow> bool" where
  "contains_text t e = str_includes (getText (self e)) t"

section \<open>What the program takes from its platform\<close>

text \<open>
  Four operations come from the runtime and its libraries, not from this repository,
  and are parameters of the model:
  \<^item> \<open>fetchHtml url\<close>, followed by \<open>cheerio.load\<close>: the parsed page, or \<open>Inl msg\<close> when
    the request or the parser throws an error whose \<open>message\<close> is \<open>msg\<close>;
  \<^item> \<open>String.prototype.toLowerCase\<close>;
  \<^item> \<open>a.localeCompare(b)\<close>;
  \<^item> \<open>new URL(h, "https://arknights.wiki.gg").href\<close>.
\<close>

record platform =
  fetchHtml :: "jstring \<Rightarrow> jstring + node list"
  toLowerCase :: "jstring \<Rightarrow> jstring"
  localeCompare :: "jstring \<Rightarrow> jstring \<Rightarrow> int"
  URL_href :: "jstring \<Rightarrow> jstring"

section \<open>extractField\<close>

definition textMatches :: "platform \<Rightarrow> jstring \<Rightarrow> jstring \<Rightarrow> bool" where
  "textMatches rt a b =
     (if a = [] then False
      else str_includes (toLowerCase rt (trim a)) (toLowerCase rt b))"

text \<open>
  Each of the four numbered blocks of \<open>extractField\<close> computes a value and returns it
  when it is not empty. \<open>strategy1\<close> to \<open>strategy4\<close> are the values of the blocks, the
  empty string where a block finds no element to read.
\<close>

definition strategy1 :: "platform \<Rightarrow> node list \<Rightarrow> jstring \<Rightarrow> jstring" where
  "strategy1 rt doc label =
     (let pi = first (filter
                 (\<lambda>el. let lbl = text_of (find_in (hasClass (js ''pi-data-label'')) el)
                       in lbl \<noteq> [] \<and> toLowerCase rt (trim lbl) = toLowerCase rt label)
                 (select (hasClass (js ''pi-data'')) doc))
      in if pi \<noteq> [] then trim (text_of (find_all (hasClass (js ''pi-data-value'')) pi))
         else [])"

definition strategy2 :: "platform \<Rightarrow> node list \<Rightarrow> jstring \<Rightarrow> jstring" where
  "strategy2 rt doc label =
     (let pi2 = first (filter
                  (\<lambda>el. toLowerCase rt (trim (text_of [el])) = toLowerCase rt label)
                  (select (hasClass (js ''pi-data-label'')) doc))
      in if pi2 \<noteq> [] then trim (text_of (next_matching (hasClass (js ''pi-data-value'')) pi2))
         else [])"

definition strategy3 :: "platform \<Rightarrow> node list \<Rightarrow> jstring \<Rightarrow> jstring" where
  "strategy3 rt doc label =
     (let th = first (filter (\<lambda>el. textMatches rt (text_of [el]) label)
                 (select (hasTag (js ''th'')) doc))
      in if th \<noteq> [] then
           (let td = next_matching (hasTag (js ''td'')) th
            in if td \<noteq> [] then trim (text_of td) else [])
         else [])"

text \<open>
  The selector of the fourth block is built from the label, \<open>*:contains("label")\<close>.
  It selects the elements whose text includes the label when the label has no
  parenthesis and no backslash, as every label of this program.
\<close>

definition selector_safe :: "jstring \<Rightarrow> bool" where
  "selector_safe label \<longleftrightarrow> 40 \<notin> set label \<and> 41 \<notin> set label \<and> 92 \<notin> set label"

definition strategy4 :: "platform \<Rightarrow> node list \<Rightarrow> jstring \<Rightarrow> jstring" where
  "strategy4 rt doc label =
     (let candidate = first (filter
                        (\<lambda>el. length (children el) = 0 \<and>
                              toLowerCase rt (trim (text_of [el])) = toLowerCase rt label)
                        (select (contains_text label) doc))
      in if candidate \<noteq> [] then
           (let sib = next_sibling candidate
            in if sib \<noteq> [] then trim (text_of sib) else [])
         else [])"

definition extractField :: "platform \<Rightarrow> node list \<Rightarrow> jstring \<Rightarrow> jstring" where
  "extractField rt doc label =
     (let val1 = strategy1 rt doc label in
      if val1 \<noteq> [] then val1 else
      let val2 = strategy2 rt doc label in
      if val2 \<noteq> [] then val2 else
      let txt = strategy3 rt doc label in
      if txt \<noteq> [] then txt else
      let t = strategy4 rt doc label in
      if t \<noteq> [] then t else [])"

section \<open>parseOperatorPage\<close>

text \<open>
  \<open>tidy\<close> is applied to strings and to the \<open>undefined\<close> that \<open>attr\<close> gives for a missing
  attribute (\<open>None\<close>).
\<close>

definition tidy :: "jstring option \<Rightarrow> jstring" where
  "tidy s = (case s of None \<Rightarrow> [] | Some x \<Rightarrow> if x \<noteq> [] then trim (collapse x) else [])"

text \<open>The two rewrites of an image address, the same for the portrait and the full image.\<close>

definition add_scheme :: "jstring option \<Rightarrow> jstring option" where
  "add_scheme u =
     (case u of
        None \<Rightarrow> None
      | Some x \<Rightarrow> if x \<noteq> [] \<and> startsWith x (js ''//'') then Some (js ''https:'' @ x) else Some x)"

definition add_host :: "jstring option \<Rightarrow> jstring option" where
  "add_host u =
     (case u of
        None \<Rightarrow> None
      | Some x \<Rightarrow> if x \<noteq> [] \<and> startsWith x (js ''/'')
                  then Some (js ''https://arknights.wiki.gg'' @ x) else Some x)"

definition page_name :: "node list \<Rightarrow> jstring" where
  "page_name doc =
     or_str (trim (text_of (select (hasId (js ''firstHeading'')) doc)))
            (trim (text_of (select (hasClass (js ''pi-title'')) doc)))"

definition og_image :: "node list \<Rightarrow> jstring" where
  "og_image doc =
     (case attr (select (\<lambda>e. hasTag (js ''meta'') e \<and>
                              attr_equals (js ''property'') (js ''og:image'') e) doc)
                (js ''content'') of
        None \<Rightarrow> []
      | Some v \<Rightarrow> or_str v [])"

definition pi_image_src :: "node list \<Rightarrow> jstring option" where
  "pi_image_src doc =
     (let piImage = first (select
                      (\<lambda>e. hasTag (js ''img'') e \<and>
                           inside [node_hasClass (js ''image''), node_hasClass (js ''pi-image'')] e)
                      doc)
      in if piImage \<noteq> [] then attr piImage (js ''src'') else Some [])"

definition rarityRaw :: "platform \<Rightarrow> node list \<Rightarrow> jstring" where
  "rarityRaw rt doc =
     or_str (or_str (extractField rt doc (js ''Rarity''))
                    (extractField rt doc (js ''Rarity/Stars'')))
            (extractField rt doc (js ''Star''))"

definition rarity_of :: "jstring \<Rightarrow> jsval" where
  "rarity_of raw =
     or_else (Num (Fin (star_count raw)))
             (case match_digits raw of Some ds \<Rightarrow> Num (Number ds) | None \<Rightarrow> Str [])"

definition releaseRaw :: "platform \<Rightarrow> node list \<Rightarrow> jstring" where
  "releaseRaw rt doc =
     or_str (or_str (or_str (or_str (extractField rt doc (js ''Released''))
                                    (extractField rt doc (js ''Release'')))
                            (extractField rt doc (js ''Release Date'')))
                    (extractField rt doc (js ''Recruitment'')))
            []"

text \<open>\<open>date_global\<close> and \<open>event_name\<close> from the release text.\<close>

definition release_of :: "jstring \<Rightarrow> jstring \<times> jstring" where
  "release_of raw =
     (if raw \<noteq> [] then
        let date_global =
              (case match_first re_iso raw of
                 Some iso0 \<Rightarrow> iso0
               | None \<Rightarrow> (case match_first re_year raw of Some y \<Rightarrow> y | None \<Rightarrow> []));
            event_name = trim (replace raw date_global [])
        in (date_global, if event_name = [] then raw else event_name)
      else ([], []))"

definition operator_record :: "platform \<Rightarrow> node list \<Rightarrow> jstring \<Rightarrow> jsval" where
  "operator_record rt doc opUrl =
     (let name = page_name doc;
          fullImage = add_host (add_scheme (Some (og_image doc)));
          portrait = add_host (add_scheme (pi_image_src doc));
          rarity = rarity_of (rarityRaw rt doc);
          gender = or_str (or_str (extractField rt doc (js ''Gender''))
                                  (extractField rt doc (js ''Sex''))) [];
          className = or_str (or_str (extractField rt doc (js ''Class''))
                                     (extractField rt doc (js ''Role''))) [];
          archetype = or_str (or_str (extractField rt doc (js ''Archetype''))
                                     (extractField rt doc (js ''Type''))) [];
          faction = or_str (or_str (extractField rt doc (js ''Faction''))
                                   (extractField rt doc (js ''Affiliation''))) [];
          race = or_str (extractField rt doc (js ''Race'')) [];
          region = or_str (or_str (extractField rt doc (js ''Region''))
                                  (extractField rt doc (js ''Origin''))) [];
          (date_global, event_name) = release_of (releaseRaw rt doc)
      in Obj [
           (''name'', Str (tidy (Some name))),
           (''gender'', Str (tidy (Some gender))),
           (''rarity'', or_else rarity (Str [])),
           (''class'', Str (tidy (Some className))),
           (''archetype'', Str (tidy (Some archetype))),
           (''faction'', Str (tidy (Some faction))),
           (''race'', Str (tidy (Some race))),
           (''region'', Str (tidy (Some region))),
           (''release'', Obj [(''date_global'', Str (tidy (Some date_global))),
                             (''event_name'', Str (tidy (Some event_name)))]),
           (''image'', Obj [(''portrait'', Str (tidy portrait)),
                           (''full'', Str (tidy fullImage))]),
           (''source'', Str opUrl)])"

text \<open>
  In the \<open>try\<close> block the two calls that can throw are the request of line 94 and
  \<open>cheerio.load\<close> of line 95, the fetching and the parsing of the page, which the
  platform's \<open>fetchHtml\<close> stands for. From line 98 on every method is called on a string
  or on a selection, and \<open>startsWith\<close> and \<open>replace\<close> only behind a test of their
  receiver. The \<open>catch\<close> block writes one line to the error stream (its arguments, in
  order) and returns \<open>null\<close>.
\<close>

type_synonym stderr = "jstring list list"

definition parseOperatorPage :: "platform \<Rightarrow> jstring \<Rightarrow> jsval \<times> stderr" where
  "parseOperatorPage rt opUrl =
     (case fetchHtml rt opUrl of
        Inr doc \<Rightarrow> (operator_record rt doc opUrl, [])
      | Inl message \<Rightarrow> (Null, [[js ''parseOperatorPage error for'', opUrl, message]]))"

section \<open>fetchOperatorLinksFromListing\<close>

text \<open>A \<open>Set\<close> keeps its members in the order they were first added.\<close>

definition set_add :: "'a \<Rightarrow> 'a list \<Rightarrow> 'a list" where
  "set_add x xs = (if x \<in> set xs then xs else xs @ [x])"

text \<open>
  The two \<open>each\<close> callbacks, as the \<open>href\<close> they resolve and add for an anchor, or
  \<open>None\<close> where they add nothing.
\<close>

definition operator_link :: "elem \<Rightarrow> jstring option" where
  "operator_link el =
     (case attr [el] (js ''href'') of
        None \<Rightarrow> None
      | Some h \<Rightarrow> if h \<noteq> [] \<and> \<not> str_includes h (js '':'') then Some h else None)"

definition fallback_link :: "elem \<Rightarrow> jstring option" where
  "fallback_link el =
     (case attr [el] (js ''href'') of
        None \<Rightarrow> None
      | Some h \<Rightarrow>
          if h = [] then None
          else if str_includes h (js '':'') then None
          else if ends_Operator h then None
          else
            let txt = trim (text_of [el])
            in if txt \<noteq> [] \<and> length txt < 40 \<and> has_letter txt then Some h else None)"

definition add_links ::
  "platform \<Rightarrow> (elem \<Rightarrow> jstring option) \<Rightarrow> elem list \<Rightarrow> jstring list \<Rightarrow> jstring list" where
  "add_links rt f sel links =
     fold (\<lambda>el ls. case f el of Some h \<Rightarrow> set_add (URL_href rt h) ls | None \<Rightarrow> ls) sel links"

text \<open>\<open>#mw-content-text a[href^='p']\<close>.\<close>

definition content_anchors :: "jstring \<Rightarrow> node list \<Rightarrow> elem list" where
  "content_anchors p doc =
     select (\<lambda>e. hasTag (js ''a'') e \<and> inside [node_hasId (js ''mw-content-text'')] e \<and>
                 attr_startsWith (js ''href'') p e) doc"

definition listing_links :: "platform \<Rightarrow> node list \<Rightarrow> jstring list" where
  "listing_links rt doc =
     (let links1 = add_links rt operator_link (content_anchors (js ''/wiki/Operator'') doc) [];
          links2 = add_links rt fallback_link (content_anchors (js ''/wiki/'') doc) links1
      in links2)"

text \<open>The function has no \<open>try\<close>: an error of the request is thrown on (\<open>Inl\<close>).\<close>

definition fetchOperatorLinksFromListing :: "platform \<Rightarrow> jstring \<Rightarrow> jstring + jstring list" where
  "fetchOperatorLinksFromListing rt listPageUrl =
     (case fetchHtml rt listPageUrl of
        Inl message \<Rightarrow> Inl message
      | Inr doc \<Rightarrow> Inr (listing_links rt doc))"

section \<open>main\<close>

definition rarityPages :: "jstring list" where
  "rarityPages = [js ''Operator/1-star'', js ''Operator/2-star'', js ''Operator/3-star'',
                  js ''Operator/4-star'', js ''Operator/5-star'', js ''Operator/6-star'']"

definition BASE :: jstring where
  "BASE = js ''https://arknights.wiki.gg/wiki/''"

text \<open>
  The loops of \<open>main\<close> thread their accumulators and the lines written with
  \<open>console.error\<close>; the progress lines of \<open>console.log\<close> and the delays are left out.
\<close>

fun fetch_listings :: "platform \<Rightarrow> jstring list \<Rightarrow> jstring list \<times> stderr \<Rightarrow> jstring list \<times> stderr" where
  "fetch_listings rt [] acc = acc"
| "fetch_listings rt (page # pages) (operatorUrls, err) =
     (let url = BASE @ page in
      case fetchOperatorLinksFromListing rt url of
        Inr links \<Rightarrow> fetch_listings rt pages (fold set_add links operatorUrls, err)
      | Inl message \<Rightarrow>
          fetch_listings rt pages
            (operatorUrls, err @ [[js ''Failed to fetch listing'', url, message]]))"

fun parse_pages :: "platform \<Rightarrow> jstring list \<Rightarrow> jsval list \<times> stderr \<Rightarrow> jsval list \<times> stderr" where
  "parse_pages rt [] acc = acc"
| "parse_pages rt (u # us) (operators, err) =
     (case parseOperatorPage rt u of
        (op, lines) \<Rightarrow>
          parse_pages rt us (if truthy op then operators @ [op] else operators, err @ lines))"

text \<open>
  \<open>byName\<close> is a \<open>Map\<close>: its entries in insertion order, at most one for a key.
\<close>

fun dedupe :: "jsval list \<Rightarrow> (jsval \<times> jsval) list \<Rightarrow> (jsval \<times> jsval) list" where
  "dedupe [] byName = byName"
| "dedupe (r # rs) byName =
     (if \<not> truthy r \<or> \<not> truthy (get r ''name'') then dedupe rs byName
      else if get r ''name'' \<notin> set (map fst byName)
        then dedupe rs (byName @ [(get r ''name'', r)])
        else dedupe rs byName)"

text \<open>
  \<open>Array.prototype.sort(cmp)\<close> is stable, and with a consistent comparator its result is
  the one of any stable sort; here it is sorting by insertion.
\<close>

fun insort_by :: "('a \<Rightarrow> 'a \<Rightarrow> int) \<Rightarrow> 'a \<Rightarrow> 'a list \<Rightarrow> 'a list" where
  "insort_by cmp x [] = [x]"
| "insort_by cmp x (y # ys) =
     (if cmp x y \<le> 0 then x # y # ys else y # insort_by cmp x ys)"

definition sort_by :: "('a \<Rightarrow> 'a \<Rightarrow> int) \<Rightarrow> 'a list \<Rightarrow> 'a list" where
  "sort_by cmp xs = foldr (insort_by cmp) xs []"

text \<open>
  \<open>a.name.localeCompare(b.name)\<close>. Every record that reaches the sort has a string
  name; the last case is never taken.
\<close>

definition compare_names :: "platform \<Rightarrow> jsval \<Rightarrow> jsval \<Rightarrow> int" where
  "compare_names rt a b =
     (case (get a ''name'', get b ''name'') of
        (Str x, Str y) \<Rightarrow> localeCompare rt x y
      | _ \<Rightarrow> 0)"

subsection \<open>JSON.stringify\<close>

text \<open>
  The document written to \<open>operators.json\<close>, as the JSON value that its text denotes.
  \<open>JSON.stringify\<close> leaves out a property whose value is \<open>undefined\<close> and writes
  \<open>null\<close> for a number that is not finite.
\<close>

datatype json =
    JNull
  | JString jstring
  | JNumber nat
  | JObject "(string \<times> json) list"
  | JArray "json list"

fun stringify :: "jsval \<Rightarrow> json option"
  and stringify_props :: "(string \<times> jsval) list \<Rightarrow> (string \<times> json) list" where
  "stringify Undefined = None"
| "stringify Null = Some JNull"
| "stringify (Str s) = Some (JString s)"
| "stringify (Num (Fin n)) = Some (JNumber n)"
| "stringify (Num Infinity) = Some JNull"
| "stringify (Obj kvs) = Some (JObject (stringify_props kvs))"
| "stringify_props [] = []"
| "stringify_props ((k, v) # kvs) =
     (case stringify v of
        None \<Rightarrow> stringify_props kvs
      | Some j \<Rightarrow> (k, j) # stringify_props kvs)"

text \<open>An element of an array is written as \<open>null\<close> where it alone would not be written.\<close>

definition stringify_element :: "jsval \<Rightarrow> json" where
  "stringify_element v = (case stringify v of None \<Rightarrow> JNull | Some j \<Rightarrow> j)"

definition stringify_array :: "jsval list \<Rightarrow> json" where
  "stringify_array vs = JArray (map stringify_element vs)"

subsection \<open>The run\<close>

text \<open>
  \<open>discovered_urls\<close> is the array \<open>urls\<close> of \<open>main\<close> and \<open>parsed_operators\<close> its array
  \<open>operators\<close>; \<open>final_of\<close> is the reduction of \<open>operators\<close> to the array that is written.
\<close>

definition discovered_urls :: "platform \<Rightarrow> jstring list" where
  "discovered_urls rt = sort (fst (fetch_listings rt rarityPages ([], [])))"

definition parsed_operators :: "platform \<Rightarrow> jsval list" where
  "parsed_operators rt = fst (parse_pages rt (discovered_urls rt) ([], []))"

definition final_of :: "platform \<Rightarrow> jsval list \<Rightarrow> jsval list" where
  "final_of rt operators = sort_by (compare_names rt) (map snd (dedupe operators []))"

record run =
  final :: "jsval list"
  written :: json
  errors :: stderr

definition main :: "platform \<Rightarrow> run" where
  "main rt =
     (let (operatorUrls, err1) = fetch_listings rt rarityPages ([], []);
          urls = sort operatorUrls;
          (operators, err2) = parse_pages rt urls ([], err1);
          final = final_of rt operators
      in \<lparr>final = final, written = stringify_array final, errors = err2\<rparr>)"

section \<open>Notions of the statements\<close>

text \<open>The value that \<open>parseOperatorPage\<close> returns.\<close>

definition returned :: "platform \<Rightarrow> jstring \<Rightarrow> jsval" where
  "returned rt opUrl = fst (parseOperatorPage rt opUrl)"

text \<open>The name and the source of a record, as texts.\<close>

definition name_text :: "jsval \<Rightarrow> jstring" where
  "name_text r = (case get r ''name'' of Str s \<Rightarrow> s | _ \<Rightarrow> [])"

definition source_text :: "jsval \<Rightarrow> jstring" where
  "source_text r = (case get r ''source'' of Str s \<Rightarrow> s | _ \<Rightarrow> [])"

text \<open>
  A consistent comparison function, as \<open>Array.prototype.sort\<close> asks of its
  comparator and as \<open>localeCompare\<close> is: \<open>a\<close> before \<open>b\<close> exactly when \<open>b\<close> after
  \<open>a\<close>, and the order is transitive.
\<close>

definition consistent_comparator :: "('a \<Rightarrow> 'a \<Rightarrow> int) \<Rightarrow> bool" where
  "consistent_comparator cmp \<longleftrightarrow>
     (\<forall>a b. (cmp a b < 0) = (0 < cmp b a)) \<and>
     (\<forall>a b c. cmp a b \<le> 0 \<and> cmp b c \<le> 0 \<longrightarrow> cmp a c \<le> 0)"

definition site_origin :: jstring where
  "site_origin = js ''https://arknights.wiki.gg''"

text \<open>
  A resolution of addresses that stays within the site, as \<open>new URL(h, base).href\<close>
  does for a path: an address that starts with \<open>/wiki/\<close> and has no colon resolves to
  the site's origin followed by a path without colon.
\<close>

definition resolves_within_site :: "(jstring \<Rightarrow> jstring) \<Rightarrow> bool" where
  "resolves_within_site f \<longleftrightarrow>
     (\<forall>h. startsWith h (js ''/wiki/'') \<and> \<not> str_includes h (js '':'') \<longrightarrow>
        (\<exists>p. f h = site_origin @ p \<and> startsWith p (js ''/'') \<and> \<not> str_includes p (js '':'')))"

text \<open>
  The records that \<open>dedupe\<close> adds, given the names already in the map: a record with a
  name that is not empty and not yet seen.
\<close>

fun firsts :: "jsval list \<Rightarrow> jsval list \<Rightarrow> jsval list" where
  "firsts [] seen = []"
| "firsts (r # rs) seen =
     (if truthy r \<and> truthy (get r ''name'') \<and> get r ''name'' \<notin> set seen
      then r # firsts rs (seen @ [get r ''name''])
      else firsts rs seen)"

text \<open>The elements of a JSON array and the member \<open>k\<close> of a JSON object.\<close>

fun items :: "json \<Rightarrow> json list" where
  "items (JArray vs) = vs"
| "items j = []"

fun member :: "json \<Rightarrow> string \<Rightarrow> json option" where
  "member (JObject kvs) k = map_of kvs k"
| "member j k = None"

text \<open>The names of the records of a written array, in its order.\<close>

definition written_names :: "json \<Rightarrow> jstring list" where
  "written_names j =
     map (\<lambda>x. case member x ''name'' of Some (JString s) \<Rightarrow> s | _ \<Rightarrow> []) (items j)"

section \<open>Sample pages\<close>

text \<open>
  A platform for concrete runs: lower case on ASCII letters, comparison by code units,
  and a site whose addresses resolve without rewriting. The pages it serves are given
  by \<open>web\<close>.
\<close>

definition ascii_lower :: "jstring \<Rightarrow> jstring" where
  "ascii_lower s = map (\<lambda>c. if 65 \<le> c \<and> c \<le> 90 then c + 32 else c) s"

definition unit_compare :: "jstring \<Rightarrow> jstring \<Rightarrow> int" where
  "unit_compare a b = (if a < b then - 1 else if a = b then 0 else 1)"

definition site_href :: "jstring \<Rightarrow> jstring" where
  "site_href h = js ''https://arknights.wiki.gg'' @ h"

definition sample_platform :: "(jstring \<Rightarrow> jstring + node list) \<Rightarrow> platform" where
  "sample_platform web =
     \<lparr>fetchHtml = web, toLowerCase = ascii_lower, localeCompare = unit_compare,
      URL_href = site_href\<rparr>"

definition not_found :: "jstring + node list" where
  "not_found = Inl (js ''Request failed with status code 404'')"

definition serve :: "jstring \<Rightarrow> node list \<Rightarrow> jstring \<Rightarrow> jstring + node list" where
  "serve url page u = (if u = url then Inr page else not_found)"

definition html_page :: "node list \<Rightarrow> node list \<Rightarrow> node list" where
  "html_page hd_nodes body_nodes =
     [Element (js ''html'') []
        [Element (js ''head'') [] hd_nodes, Element (js ''body'') [] body_nodes]]"

definition heading :: "jstring \<Rightarrow> node" where
  "heading t = Element (js ''h1'') [(js ''id'', js ''firstHeading'')] [TextNode t]"

definition infobox_row :: "jstring \<Rightarrow> jstring \<Rightarrow> node" where
  "infobox_row label v =
     Element (js ''div'') [(js ''class'', js ''pi-item pi-data'')]
       [Element (js ''h3'') [(js ''class'', js ''pi-data-label'')] [TextNode label],
        Element (js ''div'') [(js ''class'', js ''pi-data-value'')] [TextNode v]]"

definition operator_page :: "jstring \<Rightarrow> jstring \<Rightarrow> jstring \<Rightarrow> node list" where
  "operator_page name label v = html_page [] [heading name, infobox_row label v]"

definition anchor :: "jstring \<Rightarrow> jstring \<Rightarrow> node" where
  "anchor href t = Element (js ''a'') [(js ''href'', href)] [TextNode t]"

definition listing_page :: "node list \<Rightarrow> node list" where
  "listing_page anchors =
     html_page [] [Element (js ''div'') [(js ''id'', js ''mw-content-text'')] anchors]"

definition figure :: "jstring \<Rightarrow> node" where
  "figure src =
     Element (js ''figure'') [(js ''class'', js ''pi-item pi-image'')]
       [Element (js ''a'') [(js ''class'', js ''image''), (js ''href'', js ''/wiki/File:Amiya.png'')]
          [Element (js ''img'') [(js ''src'', src), (js ''alt'', js ''Amiya'')] []]]"

definition og_meta :: "jstring \<Rightarrow> node" where
  "og_meta content =
     Element (js ''meta'') [(js ''property'', js ''og:image''), (js ''content'', content)] []"

definition image_page :: "jstring \<Rightarrow> jstring \<Rightarrow> node list" where
  "image_page portrait full = html_page [og_meta full] [heading (js ''Amiya''), figure portrait]"

definition amiya_url :: jstring where
  "amiya_url = js ''https://arknights.wiki.gg/wiki/Amiya''"

definition blaze_url :: jstring where
  "blaze_url = js ''https://arknights.wiki.gg/wiki/Blaze''"

definition ceobe_url :: jstring where
  "ceobe_url = js ''https://arknights.wiki.gg/wiki/Ceobe''"

text \<open>The last of the six listings, \<open>BASE + "Operator/6-star"\<close>.\<close>

definition listing_url :: jstring where
  "listing_url = js ''https://arknights.wiki.gg/wiki/Operator/6-star''"

definition year_page :: "node list" where
  "year_page = operator_page (js ''Amiya'') (js ''Released'') (js ''Released in 2018'')"

definition bare_year_page :: "node list" where
  "bare_year_page = operator_page (js ''Amiya'') (js ''Released'') (js ''2018'')"

definition iso_page :: "node list" where
  "iso_page =
     operator_page (js ''Amiya'') (js ''Released'')
       (js ''Released: 2020-05-14 duringIc3 Blazing Summer'')"

definition image_page_a :: "node list" where
  "image_page_a = image_page (js ''//example.com/img.png'') (js ''/wiki/img.png'')"

definition image_page_b :: "node list" where
  "image_page_b = image_page (js ''/wiki/img.png'') (js ''//example.com/img.png'')"

text \<open>The two sources again, each after one space.\<close>

definition spaced_image_page :: "node list" where
  "spaced_image_page = image_page (js '' //example.com/img.png'') (js '' /wiki/img.png'')"

definition zero_rarity_page :: "node list" where
  "zero_rarity_page = operator_page (js ''Amiya'') (js ''Rarity'') (js ''Tier 0'')"

definition blank_page :: "node list" where
  "blank_page = html_page [] []"

text \<open>Pages whose rarity is six star glyphs, and the text \<open>6-star\<close>.\<close>

definition star_page :: "node list" where
  "star_page = operator_page (js ''Amiya'') (js ''Rarity'') (replicate 6 9733)"

definition six_page :: "node list" where
  "six_page = operator_page (js ''Amiya'') (js ''Rarity'') (js ''6-star'')"

text \<open>
  A page rigged so that each block of \<open>extractField\<close> reads another value for
  \<open>Rarity\<close>: 6 in the infobox row, 5 beside a lone label, 4 in a table, 3 after a
  paragraph that is the label.
\<close>

definition rigged_page :: "node list" where
  "rigged_page =
     html_page []
       [Element (js ''p'') [] [TextNode (js ''Rarity'')],
        Element (js ''p'') [] [TextNode (js ''3'')],
        Element (js ''span'') [(js ''class'', js ''pi-data-label'')] [TextNode (js ''Rarity'')],
        Element (js ''span'') [(js ''class'', js ''pi-data-value'')] [TextNode (js ''5'')],
        Element (js ''table'') []
          [Element (js ''tr'') []
             [Element (js ''th'') [] [TextNode (js ''Rarity'')],
              Element (js ''td'') [] [TextNode (js ''4'')]]],
        Element (js ''div'') [(js ''class'', js ''pi-data'')]
          [Element (js ''div'') []
             [Element (js ''h3'') [(js ''class'', js ''pi-data-label'')] [TextNode (js ''Rarity'')]],
           Element (js ''div'') [(js ''class'', js ''pi-data-value'')] [TextNode (js ''6'')]]]"

text \<open>A rarity text of 310 digits, the decimal numeral of \<open>10 ^ 309\<close>.\<close>

definition huge_digits :: jstring where
  "huge_digits = 49 # replicate 309 48"

definition huge_page :: "node list" where
  "huge_page = operator_page (js ''Amiya'') (js ''Rarity'') huge_digits"

definition roster_listing :: "node list" where
  "roster_listing =
     listing_page [anchor (js ''/wiki/Ceobe'') (js ''Ceobe''), anchor (js ''/wiki/Blaze'') (js ''Blaze''),
                   anchor (js ''/wiki/Amiya'') (js ''Amiya'')]"

text \<open>
  A site with one listing of three operators: the page of Amiya, no page for Blaze, and
  a page at the address of Ceobe whose heading is \<open>third\<close>.
\<close>

definition roster_web :: "jstring \<Rightarrow> jstring \<Rightarrow> jstring + node list" where
  "roster_web third u =
     (if u = listing_url then Inr roster_listing
      else if u = amiya_url then Inr (operator_page (js ''Amiya'') (js ''Rarity'') (js ''5''))
      else if u = ceobe_url then Inr (operator_page third (js ''Rarity'') (js ''6''))
      else not_found)"

text \<open>A listing with one link, to a page whose address ends in \<open>Operator\<close>.\<close>

definition reserve_listing :: "node list" where
  "reserve_listing =
     listing_page [anchor (js ''/wiki/Reserve_Operator'') (js ''Reserve Operator'')]"

text \<open>A site with one listing of one operator, whose page has that rarity text.\<close>

definition huge_web :: "jstring \<Rightarrow> jstring + node list" where
  "huge_web u =
     (if u = listing_url then Inr (listing_page [anchor (js ''/wiki/Amiya'') (js ''Amiya'')])
      else if u = amiya_url then Inr huge_page
      else not_found)"

section \<open>The fields of a parsed record\<close>

lemma get_name:
  "get (operator_record rt doc u) ''name'' = Str (tidy (Some (page_name doc)))"
  by (simp add: operator_record_def Let_def split: prod.split)

lemma get_rarity:
  "get (operator_record rt doc u) ''rarity'' = or_else (rarity_of (rarityRaw rt doc)) (Str [])"
  by (simp add: operator_record_def Let_def split: prod.split)

lemma get_release:
  "get (operator_record rt doc u) ''release'' =
     Obj [(''date_global'', Str (tidy (Some (fst (release_of (releaseRaw rt doc)))))),
          (''event_name'', Str (tidy (Some (snd (release_of (releaseRaw rt doc))))))]"
  by (simp add: operator_record_def Let_def split: prod.split)

lemma get_image:
  "get (operator_record rt doc u) ''image'' =
     Obj [(''portrait'', Str (tidy (add_host (add_scheme (pi_image_src doc))))),
          (''full'', Str (tidy (add_host (add_scheme (Some (og_image doc))))))]"
  by (simp add: operator_record_def Let_def split: prod.split)

lemma get_source:
  "get (operator_record rt doc u) ''source'' = Str u"
  by (simp add: operator_record_def Let_def split: prod.split)

lemma returned_ok:
  "fetchHtml rt u = Inr doc \<Longrightarrow> returned rt u = operator_record rt doc u"
  by (simp add: returned_def parseOperatorPage_def)

lemma returned_fail:
  "fetchHtml rt u = Inl msg \<Longrightarrow> returned rt u = Null"
  by (simp add: returned_def parseOperatorPage_def)

lemma returned_cases:
  "returned rt u = (case fetchHtml rt u of Inr doc \<Rightarrow> operator_record rt doc u | Inl msg \<Rightarrow> Null)"
  by (simp add: returned_def parseOperatorPage_def split: sum.splits)

lemma truthy_record: "truthy (operator_record rt doc u)"
  by (simp add: operator_record_def Let_def split: prod.splits)

lemma truthy_returned: "truthy (returned rt u) \<longleftrightarrow> (\<exists>doc. fetchHtml rt u = Inr doc)"
  by (cases "fetchHtml rt u") (simp_all add: returned_cases truthy_record)

lemma source_returned: "truthy (returned rt u) \<Longrightarrow> source_text (returned rt u) = u"
  by (cases "fetchHtml rt u") (simp_all add: returned_cases source_text_def get_source)

lemma name_returned:
  "truthy (returned rt u) \<Longrightarrow> \<exists>s. get (returned rt u) ''name'' = Str s"
  by (cases "fetchHtml rt u") (simp_all add: returned_cases get_name)

lemma fetch_sample: "fetchHtml (sample_platform web) u = web u"
  by (simp add: sample_platform_def)

lemma serve_hit: "serve url page url = Inr page"
  by (simp add: serve_def)

lemma fetch_served: "fetchHtml (sample_platform (serve url page)) url = Inr page"
  by (simp add: fetch_sample serve_hit)

lemma or_str_first: "a \<noteq> [] \<Longrightarrow> or_str a b = a"
  by (simp add: or_str_def)

lemma extractField_first:
  "strategy1 rt doc label = v \<Longrightarrow> v \<noteq> [] \<Longrightarrow> extractField rt doc label = v"
  by (simp add: extractField_def)

section \<open>The cascade of extractField\<close>

text \<open>
  C6: when the first block (the infobox row whose label is the wanted one) reads a value
  that is not empty, \<open>extractField\<close> returns that value, whatever the other three
  blocks would read; when all four blocks read nothing, it returns the empty string.
  The second part is for labels without parenthesis or backslash, for which the
  selector of the fourth block is well formed; the labels of the program are such.
\<close>

theorem extractField_cascade:
  "(strategy1 rt doc label \<noteq> [] \<longrightarrow> extractField rt doc label = strategy1 rt doc label) \<and>
   (selector_safe label \<and> strategy1 rt doc label = [] \<and> strategy2 rt doc label = [] \<and>
    strategy3 rt doc label = [] \<and> strategy4 rt doc label = [] \<longrightarrow>
    extractField rt doc label = [])"
  by (simp add: extractField_def)

lemma rigged_page_strategies:
  "strategy1 (sample_platform web) rigged_page (js ''Rarity'') = js ''6''"
  "strategy2 (sample_platform web) rigged_page (js ''Rarity'') = js ''5''"
  "strategy3 (sample_platform web) rigged_page (js ''Rarity'') = js ''4''"
  "strategy4 (sample_platform web) rigged_page (js ''Rarity'') = js ''3''"
  by code_simp+

lemma blank_page_strategies:
  "strategy1 (sample_platform web) blank_page (js ''Rarity'') = []"
  "strategy2 (sample_platform web) blank_page (js ''Rarity'') = []"
  "strategy3 (sample_platform web) blank_page (js ''Rarity'') = []"
  "strategy4 (sample_platform web) blank_page (js ''Rarity'') = []"
  "selector_safe (js ''Rarity'')"
  by code_simp+

theorem extractField_cascade_witness:
  "strategy1 (sample_platform (serve amiya_url rigged_page)) rigged_page (js ''Rarity'') = js ''6'' \<and>
   strategy2 (sample_platform (serve amiya_url rigged_page)) rigged_page (js ''Rarity'') = js ''5'' \<and>
   strategy3 (sample_platform (serve amiya_url rigged_page)) rigged_page (js ''Rarity'') = js ''4'' \<and>
   strategy4 (sample_platform (serve amiya_url rigged_page)) rigged_page (js ''Rarity'') = js ''3'' \<and>
   extractField (sample_platform (serve amiya_url rigged_page)) rigged_page (js ''Rarity'') = js ''6'' \<and>
   selector_safe (js ''Rarity'') \<and>
   strategy1 (sample_platform (serve amiya_url blank_page)) blank_page (js ''Rarity'') = [] \<and>
   strategy2 (sample_platform (serve amiya_url blank_page)) blank_page (js ''Rarity'') = [] \<and>
   strategy3 (sample_platform (serve amiya_url blank_page)) blank_page (js ''Rarity'') = [] \<and>
   strategy4 (sample_platform (serve amiya_url blank_page)) blank_page (js ''Rarity'') = [] \<and>
   extractField (sample_platform (serve amiya_url blank_page)) blank_page (js ''Rarity'') = []"
proof -
  have "js ''6'' \<noteq> []"
    by (simp add: js_def)
  with extractField_cascade [of "sample_platform (serve amiya_url rigged_page)" rigged_page "js ''Rarity''"]
       extractField_cascade [of "sample_platform (serve amiya_url blank_page)" blank_page "js ''Rarity''"]
  show ?thesis
    by (simp add: rigged_page_strategies blank_page_strategies)
qed

section \<open>Image addresses\<close>

lemma image_fields:
  "fetchHtml rt u = Inr doc \<Longrightarrow>
   get (get (returned rt u) ''image'') ''portrait'' =
     Str (tidy (add_host (add_scheme (pi_image_src doc)))) \<and>
   get (get (returned rt u) ''image'') ''full'' =
     Str (tidy (add_host (add_scheme (Some (og_image doc)))))"
  by (simp add: returned_ok get_image)

lemma protocol_relative:
  "startsWith x (js ''//'') \<Longrightarrow> add_host (add_scheme (Some x)) = Some (js ''https:'' @ x)"
  by (auto simp: add_host_def add_scheme_def startsWith_def js_def)

lemma root_relative:
  "startsWith x (js ''/'') \<Longrightarrow> \<not> startsWith x (js ''//'') \<Longrightarrow>
   add_host (add_scheme (Some x)) = Some (js ''https://arknights.wiki.gg'' @ x)"
  by (auto simp: add_host_def add_scheme_def startsWith_def js_def)

text \<open>
  Where the attribute itself starts with \<open>//\<close> or with one \<open>/\<close>, lines 109 to 113 put
  \<open>https:\<close> or \<open>https://arknights.wiki.gg\<close> in front of it, for the portrait and for the
  full image; \<open>tidy\<close> is applied to the result.
\<close>

lemma image_prefix_added:
  assumes "fetchHtml rt u = Inr doc"
  shows "(pi_image_src doc = Some src \<and> startsWith src (js ''//'') \<longrightarrow>
            get (get (returned rt u) ''image'') ''portrait'' =
              Str (tidy (Some (js ''https:'' @ src)))) \<and>
         (pi_image_src doc = Some src \<and> startsWith src (js ''/'') \<and>
            \<not> startsWith src (js ''//'') \<longrightarrow>
            get (get (returned rt u) ''image'') ''portrait'' =
              Str (tidy (Some (js ''https://arknights.wiki.gg'' @ src)))) \<and>
         (og_image doc = src \<and> startsWith src (js ''//'') \<longrightarrow>
            get (get (returned rt u) ''image'') ''full'' =
              Str (tidy (Some (js ''https:'' @ src)))) \<and>
         (og_image doc = src \<and> startsWith src (js ''/'') \<and>
            \<not> startsWith src (js ''//'') \<longrightarrow>
            get (get (returned rt u) ''image'') ''full'' =
              Str (tidy (Some (js ''https://arknights.wiki.gg'' @ src))))"
  using image_fields [OF assms]
  by (auto simp: protocol_relative root_relative)

lemma image_page_a_values:
  "pi_image_src image_page_a = Some (js ''//example.com/img.png'')"
  "og_image image_page_a = js ''/wiki/img.png''"
  by code_simp+

lemma image_page_b_values:
  "pi_image_src image_page_b = Some (js ''/wiki/img.png'')"
  "og_image image_page_b = js ''//example.com/img.png''"
  by code_simp+

lemma sample_srcs:
  "tidy (add_host (add_scheme (Some (js ''//example.com/img.png'')))) =
     js ''https://example.com/img.png''"
  "tidy (add_host (add_scheme (Some (js ''/wiki/img.png'')))) =
     js ''https://arknights.wiki.gg/wiki/img.png''"
  by code_simp+

text \<open>
  The two sources of the specification's examples, each as the portrait and as the full
  image, come out absolute.
\<close>

lemma image_examples:
  "get (get (returned (sample_platform (serve amiya_url image_page_a)) amiya_url) ''image'')
     ''portrait'' = Str (js ''https://example.com/img.png'') \<and>
   get (get (returned (sample_platform (serve amiya_url image_page_a)) amiya_url) ''image'')
     ''full'' = Str (js ''https://arknights.wiki.gg/wiki/img.png'') \<and>
   get (get (returned (sample_platform (serve amiya_url image_page_b)) amiya_url) ''image'')
     ''portrait'' = Str (js ''https://arknights.wiki.gg/wiki/img.png'') \<and>
   get (get (returned (sample_platform (serve amiya_url image_page_b)) amiya_url) ''image'')
     ''full'' = Str (js ''https://example.com/img.png'')"
  using image_fields [OF fetch_served, of amiya_url image_page_a]
        image_fields [OF fetch_served, of amiya_url image_page_b]
  by (simp add: image_page_a_values image_page_b_values sample_srcs)

lemma spaced_image_page_values:
  "pi_image_src spaced_image_page = Some (js '' //example.com/img.png'')"
  "og_image spaced_image_page = js '' /wiki/img.png''"
  by code_simp+

lemma spaced_srcs:
  "tidy (add_host (add_scheme (Some (js '' //example.com/img.png'')))) =
     js ''//example.com/img.png''"
  "tidy (add_host (add_scheme (Some (js '' /wiki/img.png'')))) = js ''/wiki/img.png''"
  by code_simp+

lemma relative_literals:
  "js ''//example.com/img.png'' \<noteq> js ''https://example.com/img.png''"
  "js ''/wiki/img.png'' \<noteq> js ''https://arknights.wiki.gg/wiki/img.png''"
  by (simp_all add: js_def)

text \<open>
  C8 fails on the code: for a page whose portrait has the attribute
  \<open>src=" //example.com/img.png"\<close> and whose \<open>og:image\<close> has
  \<open>content=" /wiki/img.png"\<close>, each with one space in front, the tests of lines 109 to
  113 are made on the attribute as it stands and find neither \<open>//\<close> nor \<open>/\<close> at its
  start, and \<open>tidy\<close> takes the space away only afterwards (line 158): the record holds
  the protocol-relative \<open>//example.com/img.png\<close> and the root-relative \<open>/wiki/img.png\<close>,
  not the absolute addresses.
\<close>

theorem spaced_image_source_stays_relative:
  "pi_image_src spaced_image_page = Some (js '' //example.com/img.png'') \<and>
   og_image spaced_image_page = js '' /wiki/img.png'' \<and>
   get (get (returned (sample_platform (serve amiya_url spaced_image_page)) amiya_url) ''image'')
     ''portrait'' = Str (js ''//example.com/img.png'') \<and>
   get (get (returned (sample_platform (serve amiya_url spaced_image_page)) amiya_url) ''image'')
     ''full'' = Str (js ''/wiki/img.png'') \<and>
   get (get (returned (sample_platform (serve amiya_url spaced_image_page)) amiya_url) ''image'')
     ''portrait'' \<noteq> Str (js ''https://example.com/img.png'') \<and>
   get (get (returned (sample_platform (serve amiya_url spaced_image_page)) amiya_url) ''image'')
     ''full'' \<noteq> Str (js ''https://arknights.wiki.gg/wiki/img.png'')"
  using image_fields [OF fetch_served, of amiya_url spaced_image_page]
  by (simp add: spaced_image_page_values spaced_srcs relative_literals)

section \<open>Rarity\<close>

lemma to_double_0: "to_double 0 = Fin 0"
  by (simp add: to_double_def)

lemma bitlen_lower: "0 < n \<Longrightarrow> 2 ^ (bitlen n - 1) \<le> n"
proof (induction n rule: bitlen.induct)
  case (1 n)
  show ?case
  proof (cases "n div 2 = 0")
    case True
    with "1.prems" have "n = 1" by presburger
    then show ?thesis by (simp add: bitlen.simps [of "Suc 0"] bitlen.simps [of 0])
  next
    case False
    then have pos: "0 < n div 2" by simp
    with "1.IH" "1.prems" have ih: "2 ^ (bitlen (n div 2) - 1) \<le> n div 2" by simp
    from pos have b: "bitlen (n div 2) \<noteq> 0" by (subst bitlen.simps) simp
    have "bitlen n = Suc (bitlen (n div 2))" using "1.prems" by (subst bitlen.simps) simp
    with b have "(2::nat) ^ (bitlen n - 1) = 2 * 2 ^ (bitlen (n div 2) - 1)"
      by (cases "bitlen (n div 2)") simp_all
    also have "\<dots> \<le> 2 * (n div 2)" using ih by simp
    also have "\<dots> \<le> n" by simp
    finally show ?thesis .
  qed
qed

lemma to_double_eq_0: "to_double n = Fin 0 \<longleftrightarrow> n = 0"
proof (cases "n < 2 ^ 53")
  case True
  then show ?thesis by (simp add: to_double_def)
next
  case False
  then have big: "(2::nat) ^ 53 \<le> n" by simp
  then have pos: "0 < n" by (metis less_le_trans zero_less_numeral zero_less_power)
  have "(2::nat) ^ (bitlen n - 53) \<le> 2 ^ (bitlen n - 1)"
    by (rule power_increasing) simp_all
  also have "\<dots> \<le> n" by (rule bitlen_lower [OF pos])
  finally have "0 < n div 2 ^ (bitlen n - 53)"
    by (simp add: div_greater_zero_iff)
  then have "to_double n \<noteq> Fin 0"
    using False by (auto simp: to_double_def Let_def)
  with pos show ?thesis by simp
qed

lemma rarity_field:
  "fetchHtml rt u = Inr doc \<Longrightarrow>
   get (returned rt u) ''rarity'' = or_else (rarity_of (rarityRaw rt doc)) (Str [])"
  by (simp add: returned_ok get_rarity)

lemma or_else_not_zero: "or_else v (Str []) \<noteq> Num (Fin 0)"
  by (cases v rule: truthy.cases) (simp_all add: or_else_def)

lemma rarity_of_cases:
  "rarity_of raw = Str [] \<or> (\<exists>n. rarity_of raw = Num n)"
  by (auto simp: rarity_of_def or_else_def split: option.splits)

text \<open>
  C10: the rarity of a parsed record is never the number 0; it is the empty string or a
  number other than 0. With a star in the rarity text it is the number of stars.
  Without a star it follows the first run of digits: the empty string when the value of
  the run is 0, the number of that value (not 0) otherwise, and the empty string when
  the text has no digit or no rarity text is found.
\<close>

theorem rarity_never_zero:
  assumes "fetchHtml rt u = Inr doc"
  shows "get (returned rt u) ''rarity'' \<noteq> Num (Fin 0) \<and>
         (get (returned rt u) ''rarity'' = Str [] \<or>
          (\<exists>n. get (returned rt u) ''rarity'' = Num n \<and> n \<noteq> Fin 0)) \<and>
         (0 < star_count (rarityRaw rt doc) \<longrightarrow>
            get (returned rt u) ''rarity'' = Num (Fin (star_count (rarityRaw rt doc)))) \<and>
         (star_count (rarityRaw rt doc) = 0 \<and> match_digits (rarityRaw rt doc) = Some ds \<and>
          decimal_value ds = 0 \<longrightarrow> get (returned rt u) ''rarity'' = Str []) \<and>
         (star_count (rarityRaw rt doc) = 0 \<and> match_digits (rarityRaw rt doc) = Some ds \<and>
          0 < decimal_value ds \<longrightarrow>
            get (returned rt u) ''rarity'' = Num (Number ds) \<and> Number ds \<noteq> Fin 0) \<and>
         (star_count (rarityRaw rt doc) = 0 \<and> match_digits (rarityRaw rt doc) = None \<longrightarrow>
            get (returned rt u) ''rarity'' = Str []) \<and>
         (rarityRaw rt doc = [] \<longrightarrow> get (returned rt u) ''rarity'' = Str [])"
proof -
  let ?r = "get (returned rt u) ''rarity''"
  let ?raw = "rarityRaw rt doc"
  have r: "?r = or_else (rarity_of ?raw) (Str [])"
    by (rule rarity_field [OF assms])
  have nz: "?r \<noteq> Num (Fin 0)"
    unfolding r by (rule or_else_not_zero)
  have shape: "?r = Str [] \<or> (\<exists>n. ?r = Num n \<and> n \<noteq> Fin 0)"
    using rarity_of_cases [of ?raw] nz by (auto simp: r or_else_def)
  have stars: "0 < star_count ?raw \<longrightarrow> ?r = Num (Fin (star_count ?raw))"
    by (simp add: r rarity_of_def or_else_def)
  have zero: "star_count ?raw = 0 \<and> match_digits ?raw = Some ds \<and> decimal_value ds = 0 \<longrightarrow>
      ?r = Str []"
    by (simp add: r rarity_of_def or_else_def Number_def to_double_0)
  have digits: "star_count ?raw = 0 \<and> match_digits ?raw = Some ds \<and> 0 < decimal_value ds \<longrightarrow>
      ?r = Num (Number ds) \<and> Number ds \<noteq> Fin 0"
  proof
    assume h: "star_count ?raw = 0 \<and> match_digits ?raw = Some ds \<and> 0 < decimal_value ds"
    then have n: "Number ds \<noteq> Fin 0"
      by (simp add: Number_def to_double_eq_0)
    then have "truthy (Num (Number ds))"
      by (cases "Number ds") simp_all
    with h n show "?r = Num (Number ds) \<and> Number ds \<noteq> Fin 0"
      by (simp add: r rarity_of_def or_else_def)
  qed
  have nodigit: "star_count ?raw = 0 \<and> match_digits ?raw = None \<longrightarrow> ?r = Str []"
    by (simp add: r rarity_of_def or_else_def)
  have none: "?raw = [] \<longrightarrow> ?r = Str []"
    by (simp add: r rarity_of_def or_else_def star_count_def match_digits_def)
  from nz shape stars zero digits nodigit none show ?thesis by blast
qed

lemma rarityRaw_first:
  "strategy1 rt doc (js ''Rarity'') = v \<Longrightarrow> v \<noteq> [] \<Longrightarrow> rarityRaw rt doc = v"
  by (simp add: rarityRaw_def or_str_first extractField_first)

lemma zero_rarity_page_strategy1:
  "strategy1 (sample_platform web) zero_rarity_page (js ''Rarity'') = js ''Tier 0''"
  by code_simp

lemma zero_rarity_page_rarityRaw:
  "rarityRaw (sample_platform web) zero_rarity_page = js ''Tier 0''"
  by (rule rarityRaw_first [OF zero_rarity_page_strategy1]) (simp add: js_def)

lemma tier_0:
  "star_count (js ''Tier 0'') = 0" "match_digits (js ''Tier 0'') = Some (js ''0'')"
  "decimal_value (js ''0'') = 0"
  by code_simp+

lemma blank_page_rarityRaw: "rarityRaw (sample_platform web) blank_page = []"
  by code_simp

lemma star_page_strategy1:
  "strategy1 (sample_platform web) star_page (js ''Rarity'') = replicate 6 9733"
  by code_simp

lemma star_page_rarityRaw: "rarityRaw (sample_platform web) star_page = replicate 6 9733"
  by (rule rarityRaw_first [OF star_page_strategy1]) simp

lemma six_page_strategy1:
  "strategy1 (sample_platform web) six_page (js ''Rarity'') = js ''6-star''"
  by code_simp

lemma six_page_rarityRaw: "rarityRaw (sample_platform web) six_page = js ''6-star''"
  by (rule rarityRaw_first [OF six_page_strategy1]) (simp add: js_def)

lemma six_stars:
  "star_count (replicate 6 9733) = 6"
  "star_count (js ''6-star'') = 0" "match_digits (js ''6-star'') = Some (js ''6'')"
  "decimal_value (js ''6'') = 6"
  by code_simp+

lemma Number_6: "Number (js ''6'') = Fin 6"
  by (simp add: Number_def six_stars to_double_def)

theorem rarity_never_zero_witness:
  "fetchHtml (sample_platform (serve amiya_url zero_rarity_page)) amiya_url = Inr zero_rarity_page \<and>
   star_count (rarityRaw (sample_platform (serve amiya_url zero_rarity_page)) zero_rarity_page) = 0 \<and>
   match_digits (rarityRaw (sample_platform (serve amiya_url zero_rarity_page)) zero_rarity_page)
     = Some (js ''0'') \<and>
   decimal_value (js ''0'') = 0 \<and>
   get (returned (sample_platform (serve amiya_url zero_rarity_page)) amiya_url) ''rarity'' = Str [] \<and>
   rarityRaw (sample_platform (serve amiya_url blank_page)) blank_page = [] \<and>
   get (returned (sample_platform (serve amiya_url blank_page)) amiya_url) ''rarity'' = Str [] \<and>
   star_count (rarityRaw (sample_platform (serve amiya_url star_page)) star_page) = 6 \<and>
   get (returned (sample_platform (serve amiya_url star_page)) amiya_url) ''rarity'' = Num (Fin 6) \<and>
   match_digits (rarityRaw (sample_platform (serve amiya_url six_page)) six_page) = Some (js ''6'') \<and>
   get (returned (sample_platform (serve amiya_url six_page)) amiya_url) ''rarity'' = Num (Fin 6)"
proof -
  note z = rarity_never_zero [OF fetch_served [of amiya_url zero_rarity_page], where ds = "js ''0''"]
  note b = rarity_never_zero [OF fetch_served [of amiya_url blank_page], where ds = "js ''0''"]
  note s = rarity_never_zero [OF fetch_served [of amiya_url star_page], where ds = "js ''0''"]
  note d = rarity_never_zero [OF fetch_served [of amiya_url six_page], where ds = "js ''6''"]
  have 1: "get (returned (sample_platform (serve amiya_url zero_rarity_page)) amiya_url) ''rarity'' = Str []"
    using z by (simp add: zero_rarity_page_rarityRaw tier_0)
  have 2: "get (returned (sample_platform (serve amiya_url blank_page)) amiya_url) ''rarity'' = Str []"
    using b by (simp add: blank_page_rarityRaw)
  have 3: "get (returned (sample_platform (serve amiya_url star_page)) amiya_url) ''rarity'' = Num (Fin 6)"
    using s by (simp add: star_page_rarityRaw six_stars)
  have 4: "get (returned (sample_platform (serve amiya_url six_page)) amiya_url) ''rarity'' = Num (Fin 6)"
    using d by (simp add: six_page_rarityRaw six_stars Number_6)
  from 1 2 3 4 show ?thesis
    by (simp add: fetch_served zero_rarity_page_rarityRaw tier_0 blank_page_rarityRaw
        star_page_rarityRaw six_page_rarityRaw six_stars)
qed

section \<open>Release date and event name\<close>

lemma release_fields:
  "fetchHtml rt u = Inr doc \<Longrightarrow>
   get (get (returned rt u) ''release'') ''date_global'' =
     Str (tidy (Some (fst (release_of (releaseRaw rt doc))))) \<and>
   get (get (returned rt u) ''release'') ''event_name'' =
     Str (tidy (Some (snd (release_of (releaseRaw rt doc)))))"
  by (simp add: returned_ok get_release)

lemma releaseRaw_first:
  "strategy1 rt doc (js ''Released'') = v \<Longrightarrow> v \<noteq> [] \<Longrightarrow> releaseRaw rt doc = v"
  by (simp add: releaseRaw_def or_str_first extractField_first)

lemma year_page_strategy1:
  "strategy1 (sample_platform web) year_page (js ''Released'') = js ''Released in 2018''"
  by code_simp

lemma year_page_releaseRaw:
  "releaseRaw (sample_platform web) year_page = js ''Released in 2018''"
  by (rule releaseRaw_first [OF year_page_strategy1]) (simp add: js_def)

lemma bare_year_page_strategy1:
  "strategy1 (sample_platform web) bare_year_page (js ''Released'') = js ''2018''"
  by code_simp

lemma bare_year_page_releaseRaw:
  "releaseRaw (sample_platform web) bare_year_page = js ''2018''"
  by (rule releaseRaw_first [OF bare_year_page_strategy1]) (simp add: js_def)

lemma iso_page_strategy1:
  "strategy1 (sample_platform web) iso_page (js ''Released'') =
     js ''Released: 2020-05-14 duringIc3 Blazing Summer''"
  by code_simp

lemma iso_page_releaseRaw:
  "releaseRaw (sample_platform web) iso_page =
     js ''Released: 2020-05-14 duringIc3 Blazing Summer''"
  by (rule releaseRaw_first [OF iso_page_strategy1]) (simp add: js_def)

lemma release_of_year:
  "release_of (js ''Released in 2018'') = (js ''2018'', js ''Released in'')"
  by code_simp

lemma release_of_bare_year:
  "release_of (js ''2018'') = (js ''2018'', js ''2018'')"
  by code_simp

lemma release_of_iso:
  "release_of (js ''Released: 2020-05-14 duringIc3 Blazing Summer'') =
     (js ''2020-05-14'', js ''Released:  duringIc3 Blazing Summer'')"
  by code_simp

lemma tidy_year:
  "tidy (Some (js ''2018'')) = js ''2018''"
  "tidy (Some (js ''Released in'')) = js ''Released in''"
  by code_simp+

lemma tidy_iso:
  "tidy (Some (js ''2020-05-14'')) = js ''2020-05-14''"
  "tidy (Some (js ''Released:  duringIc3 Blazing Summer'')) =
     js ''Released: duringIc3 Blazing Summer''"
  by code_simp+

text \<open>
  C4, as the claim states it, fails: on a page whose release text is
  \<open>Released in 2018\<close> the event name is not the full text.
\<close>

theorem release_year_only_counterexample:
  "releaseRaw (sample_platform (serve amiya_url year_page)) year_page = js ''Released in 2018'' \<and>
   \<not> (get (get (returned (sample_platform (serve amiya_url year_page)) amiya_url)
            ''release'') ''date_global'' = Str (js ''2018'') \<and>
      get (get (returned (sample_platform (serve amiya_url year_page)) amiya_url)
            ''release'') ''event_name'' = Str (js ''Released in 2018''))"
proof -
  have "js ''Released in'' \<noteq> js ''Released in 2018''"
    by (simp add: js_def)
  with release_fields [OF fetch_served, of amiya_url year_page] show ?thesis
    by (simp add: year_page_releaseRaw release_of_year tidy_year)
qed

text \<open>
  C4 (amended): for the release text \<open>Released in 2018\<close>, which holds a year of four
  digits and no date \<open>yyyy-mm-dd\<close>, the page parser gives \<open>date_global = "2018"\<close> and
  \<open>event_name = "Released in"\<close>, the release text with the year taken out and trimmed.
\<close>

theorem release_year_only:
  assumes "fetchHtml rt u = Inr doc"
    and "releaseRaw rt doc = js ''Released in 2018''"
  shows "get (get (returned rt u) ''release'') ''date_global'' = Str (js ''2018'') \<and>
         get (get (returned rt u) ''release'') ''event_name'' = Str (js ''Released in'')"
  using release_fields [OF assms(1)] assms(2)
  by (simp add: release_of_year tidy_year)

theorem release_year_only_witness:
  "fetchHtml (sample_platform (serve amiya_url year_page)) amiya_url = Inr year_page \<and>
   releaseRaw (sample_platform (serve amiya_url year_page)) year_page = js ''Released in 2018'' \<and>
   get (get (returned (sample_platform (serve amiya_url year_page)) amiya_url)
         ''release'') ''date_global'' = Str (js ''2018'') \<and>
   get (get (returned (sample_platform (serve amiya_url year_page)) amiya_url)
         ''release'') ''event_name'' = Str (js ''Released in'')"
  using release_year_only [OF fetch_served year_page_releaseRaw, of amiya_url]
  by (simp add: fetch_served year_page_releaseRaw)

text \<open>
  Line 142 puts the release text back when nothing is left of it: a page whose release
  text is \<open>2018\<close> alone has that text as its event name.
\<close>

lemma release_bare_year:
  "get (get (returned (sample_platform (serve amiya_url bare_year_page)) amiya_url)
         ''release'') ''date_global'' = Str (js ''2018'') \<and>
   get (get (returned (sample_platform (serve amiya_url bare_year_page)) amiya_url)
         ''release'') ''event_name'' = Str (js ''2018'')"
  using release_fields [OF fetch_served, of amiya_url bare_year_page]
  by (simp add: bare_year_page_releaseRaw release_of_bare_year tidy_year)

text \<open>
  C5, as the claim states it, fails: no space is put between \<open>during\<close> and \<open>Ic3\<close>.
\<close>

theorem release_iso_date_counterexample:
  "releaseRaw (sample_platform (serve amiya_url iso_page)) iso_page =
     js ''Released: 2020-05-14 duringIc3 Blazing Summer'' \<and>
   \<not> (get (get (returned (sample_platform (serve amiya_url iso_page)) amiya_url)
            ''release'') ''date_global'' = Str (js ''2020-05-14'') \<and>
      get (get (returned (sample_platform (serve amiya_url iso_page)) amiya_url)
            ''release'') ''event_name'' = Str (js ''Released: during Ic3 Blazing Summer''))"
proof -
  have "js ''Released: duringIc3 Blazing Summer'' \<noteq> js ''Released: during Ic3 Blazing Summer''"
    by (simp add: js_def)
  with release_fields [OF fetch_served, of amiya_url iso_page] show ?thesis
    by (simp add: iso_page_releaseRaw release_of_iso tidy_iso)
qed

text \<open>
  C5 (amended): for the release text \<open>Released: 2020-05-14 duringIc3 Blazing Summer\<close>
  the page parser gives \<open>date_global = "2020-05-14"\<close> and
  \<open>event_name = "Released: duringIc3 Blazing Summer"\<close>: the text with the date taken out,
  trimmed, and its runs of white space collapsed. No other character is added.
\<close>

theorem release_iso_date:
  assumes "fetchHtml rt u = Inr doc"
    and "releaseRaw rt doc = js ''Released: 2020-05-14 duringIc3 Blazing Summer''"
  shows "get (get (returned rt u) ''release'') ''date_global'' = Str (js ''2020-05-14'') \<and>
         get (get (returned rt u) ''release'') ''event_name'' =
           Str (js ''Released: duringIc3 Blazing Summer'')"
  using release_fields [OF assms(1)] assms(2)
  by (simp add: release_of_iso tidy_iso)

theorem release_iso_date_witness:
  "fetchHtml (sample_platform (serve amiya_url iso_page)) amiya_url = Inr iso_page \<and>
   releaseRaw (sample_platform (serve amiya_url iso_page)) iso_page =
     js ''Released: 2020-05-14 duringIc3 Blazing Summer'' \<and>
   get (get (returned (sample_platform (serve amiya_url iso_page)) amiya_url)
         ''release'') ''date_global'' = Str (js ''2020-05-14'') \<and>
   get (get (returned (sample_platform (serve amiya_url iso_page)) amiya_url)
         ''release'') ''event_name'' = Str (js ''Released: duringIc3 Blazing Summer'')"
  using release_iso_date [OF fetch_served iso_page_releaseRaw, of amiya_url]
  by (simp add: fetch_served iso_page_releaseRaw)

section \<open>The links of a listing\<close>

lemma set_set_add: "set (set_add x xs) = insert x (set xs)"
  by (auto simp: set_add_def)

lemma set_add_links:
  "set (add_links rt f sel links) =
     set links \<union> URL_href rt ` {h. \<exists>el \<in> set sel. f el = Some h}"
proof (induction sel arbitrary: links)
  case Nil
  then show ?case by (simp add: add_links_def)
next
  case (Cons el sel)
  have step: "add_links rt f (el # sel) links =
      add_links rt f sel (case f el of Some h \<Rightarrow> set_add (URL_href rt h) links | None \<Rightarrow> links)"
    by (simp add: add_links_def)
  show ?case
  proof (cases "f el")
    case None
    with Cons.IH [of links] step show ?thesis by auto
  next
    case (Some h)
    with Cons.IH [of "set_add (URL_href rt h) links"] step show ?thesis
      by (auto simp: set_set_add)
  qed
qed

lemma content_anchor_href:
  "el \<in> set (content_anchors p doc) \<Longrightarrow>
   \<exists>h. attr [el] (js ''href'') = Some h \<and> startsWith h p"
  by (auto simp: content_anchors_def select_def attr_startsWith_def attr_def split: option.splits)

lemma wiki_prefix: "startsWith h (js ''/wiki/Operator'') \<Longrightarrow> startsWith h (js ''/wiki/'')"
proof -
  have "prefix (js ''/wiki/'') (js ''/wiki/Operator'')" by code_simp
  then show "startsWith h (js ''/wiki/Operator'') \<Longrightarrow> startsWith h (js ''/wiki/'')"
    unfolding startsWith_def by (rule prefix_order.trans)
qed

lemma fallback_link_iff:
  assumes "attr [el] (js ''href'') = Some h"
  shows "fallback_link el = Some h \<longleftrightarrow>
           h \<noteq> [] \<and> \<not> str_includes h (js '':'') \<and> \<not> ends_Operator h \<and>
           trim (text_of [el]) \<noteq> [] \<and> length (trim (text_of [el])) < 40 \<and>
           has_letter (trim (text_of [el]))"
  using assms by (simp add: fallback_link_def Let_def)

lemma fallback_link_cases:
  assumes "attr [el] (js ''href'') = Some h"
  shows "fallback_link el = Some h \<or> fallback_link el = None"
  using assms by (simp add: fallback_link_def Let_def)

lemma operator_link_Some:
  "operator_link el = Some h \<Longrightarrow>
   attr [el] (js ''href'') = Some h \<and> \<not> str_includes h (js '':'')"
  by (auto simp: operator_link_def split: option.splits if_splits)

lemma fallback_link_Some:
  "fallback_link el = Some h \<Longrightarrow>
   attr [el] (js ''href'') = Some h \<and> \<not> str_includes h (js '':'')"
  by (auto simp: fallback_link_def Let_def split: option.splits if_splits)

lemma set_listing_links:
  "set (listing_links rt doc) =
     URL_href rt ` ({h. \<exists>el \<in> set (content_anchors (js ''/wiki/Operator'') doc). operator_link el = Some h} \<union>
                   {h. \<exists>el \<in> set (content_anchors (js ''/wiki/'') doc). fallback_link el = Some h})"
  by (simp add: listing_links_def Let_def set_add_links image_Un)

lemma listing_link_origin:
  assumes "url \<in> set (listing_links rt doc)"
  shows "\<exists>h. url = URL_href rt h \<and> startsWith h (js ''/wiki/'') \<and> \<not> str_includes h (js '':'')"
proof -
  from assms consider
    (op) el h where "el \<in> set (content_anchors (js ''/wiki/Operator'') doc)"
      "operator_link el = Some h" "url = URL_href rt h"
  | (fb) el h where "el \<in> set (content_anchors (js ''/wiki/'') doc)"
      "fallback_link el = Some h" "url = URL_href rt h"
    by (auto simp: set_listing_links)
  then show ?thesis
  proof cases
    case op
    from content_anchor_href [OF op(1)] operator_link_Some [OF op(2)]
    have "startsWith h (js ''/wiki/Operator'')" "\<not> str_includes h (js '':'')" by auto
    with op(3) show ?thesis by (auto dest: wiki_prefix)
  next
    case fb
    from content_anchor_href [OF fb(1)] fallback_link_Some [OF fb(2)]
    have "startsWith h (js ''/wiki/'')" "\<not> str_includes h (js '':'')" by auto
    with fb(3) show ?thesis by auto
  qed
qed

text \<open>
  C9, as the claim states it, fails: the link \<open>/wiki/Reserve_Operator\<close> with the text
  \<open>Reserve Operator\<close> has no colon, is not the page \<open>/wiki/Operators\<close>, and has a short
  text with letters, yet it is not added.
\<close>

theorem fallback_heuristic_counterexample:
  "map (\<lambda>el. attr [el] (js ''href'')) (content_anchors (js ''/wiki/'') reserve_listing) =
     [Some (js ''/wiki/Reserve_Operator'')] \<and>
   map (\<lambda>el. trim (text_of [el])) (content_anchors (js ''/wiki/'') reserve_listing) =
     [js ''Reserve Operator''] \<and>
   \<not> str_includes (js ''/wiki/Reserve_Operator'') (js '':'') \<and>
   js ''/wiki/Reserve_Operator'' \<noteq> js ''/wiki/Operators'' \<and>
   js ''Reserve Operator'' \<noteq> [] \<and>
   length (js ''Reserve Operator'') < 40 \<and>
   has_letter (js ''Reserve Operator'') \<and>
   map fallback_link (content_anchors (js ''/wiki/'') reserve_listing) = [None] \<and>
   listing_links (sample_platform (serve listing_url reserve_listing)) reserve_listing = []"
  by code_simp

text \<open>
  C9 (amended): every anchor of the second selection has an \<open>href\<close> that starts with
  \<open>/wiki/\<close>, and the second callback adds it exactly when the \<open>href\<close> has no colon,
  does not end in \<open>Operator\<close> or \<open>Operators\<close>, and the trimmed text of the anchor is
  not empty, shorter than 40 code units and has a letter of \<open>A-Z\<close>, \<open>a-z\<close> or U+00C0 to
  U+024F. What is added is the \<open>href\<close> resolved with \<open>new URL\<close>. Every address of the
  returned set is the resolution of an \<open>href\<close> that starts with \<open>/wiki/\<close> and has no
  colon; so where the resolution keeps such a path under the site's origin, every
  address returned is absolute and has no colon in its path.
\<close>

theorem fallback_heuristic:
  "(\<forall>el \<in> set (content_anchors (js ''/wiki/'') doc).
      \<exists>h. attr [el] (js ''href'') = Some h \<and> startsWith h (js ''/wiki/'') \<and>
          (fallback_link el = Some h \<or> fallback_link el = None) \<and>
          (fallback_link el = Some h \<longleftrightarrow>
             \<not> str_includes h (js '':'') \<and> \<not> ends_Operator h \<and>
             trim (text_of [el]) \<noteq> [] \<and> length (trim (text_of [el])) < 40 \<and>
             has_letter (trim (text_of [el])))) \<and>
   set (listing_links rt doc) =
     URL_href rt ` ({h. \<exists>el \<in> set (content_anchors (js ''/wiki/Operator'') doc). operator_link el = Some h} \<union>
                   {h. \<exists>el \<in> set (content_anchors (js ''/wiki/'') doc). fallback_link el = Some h}) \<and>
   (\<forall>url \<in> set (listing_links rt doc).
      \<exists>h. url = URL_href rt h \<and> startsWith h (js ''/wiki/'') \<and> \<not> str_includes h (js '':'')) \<and>
   (resolves_within_site (URL_href rt) \<longrightarrow>
      (\<forall>url \<in> set (listing_links rt doc).
         \<exists>p. url = site_origin @ p \<and> startsWith p (js ''/'') \<and> \<not> str_includes p (js '':'')))"
proof -
  have a: "\<forall>el \<in> set (content_anchors (js ''/wiki/'') doc).
      \<exists>h. attr [el] (js ''href'') = Some h \<and> startsWith h (js ''/wiki/'') \<and>
          (fallback_link el = Some h \<or> fallback_link el = None) \<and>
          (fallback_link el = Some h \<longleftrightarrow>
             \<not> str_includes h (js '':'') \<and> \<not> ends_Operator h \<and>
             trim (text_of [el]) \<noteq> [] \<and> length (trim (text_of [el])) < 40 \<and>
             has_letter (trim (text_of [el])))"
  proof
    fix el assume "el \<in> set (content_anchors (js ''/wiki/'') doc)"
    from content_anchor_href [OF this] obtain h where
      h: "attr [el] (js ''href'') = Some h" "startsWith h (js ''/wiki/'')" by blast
    have "js ''/wiki/'' \<noteq> []" by (simp add: js_def)
    with h(2) have "h \<noteq> []" by (auto simp: startsWith_def)
    with h fallback_link_iff [OF h(1)] fallback_link_cases [OF h(1)]
    show "\<exists>h. attr [el] (js ''href'') = Some h \<and> startsWith h (js ''/wiki/'') \<and>
          (fallback_link el = Some h \<or> fallback_link el = None) \<and>
          (fallback_link el = Some h \<longleftrightarrow>
             \<not> str_includes h (js '':'') \<and> \<not> ends_Operator h \<and>
             trim (text_of [el]) \<noteq> [] \<and> length (trim (text_of [el])) < 40 \<and>
             has_letter (trim (text_of [el])))"
      by auto
  qed
  have c: "\<forall>url \<in> set (listing_links rt doc).
      \<exists>h. url = URL_href rt h \<and> startsWith h (js ''/wiki/'') \<and> \<not> str_includes h (js '':'')"
    by (simp add: listing_link_origin)
  have d: "resolves_within_site (URL_href rt) \<longrightarrow>
      (\<forall>url \<in> set (listing_links rt doc).
         \<exists>p. url = site_origin @ p \<and> startsWith p (js ''/'') \<and> \<not> str_includes p (js '':''))"
    using c unfolding resolves_within_site_def by metis
  from a c d set_listing_links [of rt doc] show ?thesis by blast
qed

lemma site_href_resolves: "resolves_within_site site_href"
proof -
  have p: "prefix (js ''/'') (js ''/wiki/'')" by code_simp
  show ?thesis
    unfolding resolves_within_site_def site_href_def site_origin_def startsWith_def
    using p prefix_order.trans by blast
qed

lemma URL_href_sample: "URL_href (sample_platform web) = site_href"
  by (simp add: sample_platform_def)

lemma roster_listing_links:
  "map fallback_link (content_anchors (js ''/wiki/'') roster_listing) =
     [Some (js ''/wiki/Ceobe''), Some (js ''/wiki/Blaze''), Some (js ''/wiki/Amiya'')]"
  "listing_links (sample_platform web) roster_listing = [ceobe_url, blaze_url, amiya_url]"
  by code_simp+

theorem fallback_heuristic_witness:
  "resolves_within_site (URL_href (sample_platform (serve listing_url roster_listing))) \<and>
   map fallback_link (content_anchors (js ''/wiki/'') roster_listing) =
     [Some (js ''/wiki/Ceobe''), Some (js ''/wiki/Blaze''), Some (js ''/wiki/Amiya'')] \<and>
   listing_links (sample_platform (serve listing_url roster_listing)) roster_listing =
     [ceobe_url, blaze_url, amiya_url] \<and>
   (\<exists>p. amiya_url = site_origin @ p \<and> startsWith p (js ''/'') \<and> \<not> str_includes p (js '':''))"
proof -
  let ?P = "sample_platform (serve listing_url roster_listing)"
  have r: "resolves_within_site (URL_href ?P)"
    by (simp add: URL_href_sample site_href_resolves)
  have m: "amiya_url \<in> set (listing_links ?P roster_listing)"
    by (simp add: roster_listing_links)
  from fallback_heuristic [of roster_listing ?P] r m
  have "\<exists>p. amiya_url = site_origin @ p \<and> startsWith p (js ''/'') \<and> \<not> str_includes p (js '':'')"
    by blast
  with r show ?thesis by (simp add: roster_listing_links)
qed

section \<open>Sorting with a comparator\<close>

lemma set_insort_by: "set (insort_by cmp x xs) = insert x (set xs)"
  by (induction xs) auto

lemma set_sort_by: "set (sort_by cmp xs) = set xs"
  by (induction xs) (simp_all add: sort_by_def set_insort_by)

lemma distinct_map_insort_by:
  "distinct (map f (insort_by cmp x xs)) \<longleftrightarrow> f x \<notin> f ` set xs \<and> distinct (map f xs)"
  by (induction xs) (auto simp: set_insort_by)

lemma distinct_map_sort_by: "distinct (map f (sort_by cmp xs)) \<longleftrightarrow> distinct (map f xs)"
  by (induction xs) (simp_all add: sort_by_def distinct_map_insort_by set_insort_by set_sort_by [unfolded sort_by_def])

lemma sorted_insort_by:
  assumes tot: "\<And>a b. a \<in> S \<Longrightarrow> b \<in> S \<Longrightarrow> cmp a b \<le> 0 \<or> cmp b a \<le> 0"
    and tr: "\<And>a b c. a \<in> S \<Longrightarrow> b \<in> S \<Longrightarrow> c \<in> S \<Longrightarrow> cmp a b \<le> 0 \<Longrightarrow> cmp b c \<le> 0 \<Longrightarrow> cmp a c \<le> 0"
    and "x \<in> S" and "set xs \<subseteq> S"
    and "sorted_wrt (\<lambda>a b. cmp a b \<le> 0) xs"
  shows "sorted_wrt (\<lambda>a b. cmp a b \<le> 0) (insort_by cmp x xs)"
  using assms(3-)
proof (induction xs)
  case Nil
  then show ?case by simp
next
  case (Cons y ys)
  show ?case
  proof (cases "cmp x y \<le> 0")
    case True
    have "\<forall>z \<in> set ys. cmp x z \<le> 0"
    proof
      fix z assume z: "z \<in> set ys"
      with Cons.prems have "cmp y z \<le> 0" by simp
      with True tr [of x y z] Cons.prems z show "cmp x z \<le> 0" by auto
    qed
    with True Cons.prems show ?thesis by simp
  next
    case False
    with tot [of x y] Cons.prems have "cmp y x \<le> 0" by auto
    with False Cons show ?thesis by (auto simp: set_insort_by)
  qed
qed

lemma sorted_sort_by:
  assumes tot: "\<And>a b. a \<in> S \<Longrightarrow> b \<in> S \<Longrightarrow> cmp a b \<le> 0 \<or> cmp b a \<le> 0"
    and tr: "\<And>a b c. a \<in> S \<Longrightarrow> b \<in> S \<Longrightarrow> c \<in> S \<Longrightarrow> cmp a b \<le> 0 \<Longrightarrow> cmp b c \<le> 0 \<Longrightarrow> cmp a c \<le> 0"
    and "set xs \<subseteq> S"
  shows "sorted_wrt (\<lambda>a b. cmp a b \<le> 0) (sort_by cmp xs)"
  using assms(3)
proof (induction xs)
  case Nil
  then show ?case by (simp add: sort_by_def)
next
  case (Cons x xs)
  then have "sorted_wrt (\<lambda>a b. cmp a b \<le> 0) (sort_by cmp xs)" by simp
  moreover have "set (sort_by cmp xs) \<subseteq> S" using Cons.prems by (simp add: set_sort_by)
  moreover have "x \<in> S" using Cons.prems by simp
  ultimately have "sorted_wrt (\<lambda>a b. cmp a b \<le> 0) (insort_by cmp x (sort_by cmp xs))"
    using sorted_insort_by [of S cmp x "sort_by cmp xs"] tot tr by blast
  then show ?case by (simp add: sort_by_def)
qed

section \<open>The map of records by name\<close>

lemma dedupe_firsts:
  "dedupe rs byName = byName @ map (\<lambda>r. (get r ''name'', r)) (firsts rs (map fst byName))"
  by (induction rs arbitrary: byName) simp_all

lemma firsts_subset:
  "r \<in> set (firsts rs seen) \<Longrightarrow>
   r \<in> set rs \<and> truthy r \<and> truthy (get r ''name'') \<and> get r ''name'' \<notin> set seen"
proof (induction rs arbitrary: seen)
  case Nil
  then show ?case by simp
next
  case (Cons x xs)
  show ?case
  proof (cases "truthy x \<and> truthy (get x ''name'') \<and> get x ''name'' \<notin> set seen")
    case True
    with Cons.prems have "r = x \<or> r \<in> set (firsts xs (seen @ [get x ''name'']))" by simp
    then show ?thesis
    proof
      assume "r = x"
      with True show ?thesis by simp
    next
      assume "r \<in> set (firsts xs (seen @ [get x ''name'']))"
      from Cons.IH [OF this] show ?thesis by simp
    qed
  next
    case False
    with Cons.prems have "r \<in> set (firsts xs seen)" by auto
    from Cons.IH [OF this] show ?thesis by simp
  qed
qed

lemma firsts_distinct: "distinct (map (\<lambda>r. get r ''name'') (firsts rs seen))"
proof (induction rs arbitrary: seen)
  case Nil
  then show ?case by simp
next
  case (Cons x xs)
  show ?case
  proof (cases "truthy x \<and> truthy (get x ''name'') \<and> get x ''name'' \<notin> set seen")
    case True
    have "get x ''name'' \<notin> (\<lambda>r. get r ''name'') ` set (firsts xs (seen @ [get x ''name'']))"
    proof
      assume "get x ''name'' \<in> (\<lambda>r. get r ''name'') ` set (firsts xs (seen @ [get x ''name'']))"
      then obtain r where r: "r \<in> set (firsts xs (seen @ [get x ''name'']))"
        and "get r ''name'' = get x ''name''" by auto
      with firsts_subset [OF r] show False by simp
    qed
    with True Cons.IH [of "seen @ [get x ''name'']"] show ?thesis by simp
  next
    case False
    with Cons.IH [of seen] show ?thesis by auto
  qed
qed

lemma firsts_covers:
  "r \<in> set rs \<Longrightarrow> truthy r \<Longrightarrow> truthy (get r ''name'') \<Longrightarrow> get r ''name'' \<notin> set seen \<Longrightarrow>
   get r ''name'' \<in> (\<lambda>r. get r ''name'') ` set (firsts rs seen)"
proof (induction rs arbitrary: seen)
  case Nil
  then show ?case by simp
next
  case (Cons x xs)
  show ?case
  proof (cases "get x ''name'' = get r ''name'' \<and> truthy x")
    case True
    with Cons.prems show ?thesis by simp
  next
    case False
    with Cons.prems have rx: "r \<in> set xs" by auto
    show ?thesis
    proof (cases "truthy x \<and> truthy (get x ''name'') \<and> get x ''name'' \<notin> set seen")
      case True
      with False have "get r ''name'' \<notin> set (seen @ [get x ''name''])"
        using Cons.prems(4) by auto
      from Cons.IH [OF rx Cons.prems(2,3) this] True show ?thesis by simp
    next
      case False
      from Cons.IH [OF rx Cons.prems(2,3,4)] False show ?thesis by auto
    qed
  qed
qed

lemma firsts_first:
  "r \<in> set (firsts rs seen) \<Longrightarrow>
   \<exists>pre post. rs = pre @ r # post \<and>
     (\<forall>x \<in> set pre. truthy x \<longrightarrow> get x ''name'' \<noteq> get r ''name'')"
proof (induction rs arbitrary: seen)
  case Nil
  then show ?case by simp
next
  case (Cons x xs)
  show ?case
  proof (cases "truthy x \<and> truthy (get x ''name'') \<and> get x ''name'' \<notin> set seen")
    case True
    with Cons.prems have "r = x \<or> r \<in> set (firsts xs (seen @ [get x ''name'']))" by simp
    then show ?thesis
    proof
      assume "r = x"
      then have "x # xs = [] @ r # xs \<and>
          (\<forall>y \<in> set []. truthy y \<longrightarrow> get y ''name'' \<noteq> get r ''name'')" by simp
      then show ?thesis by blast
    next
      assume r: "r \<in> set (firsts xs (seen @ [get x ''name'']))"
      from firsts_subset [OF r] have ne: "get x ''name'' \<noteq> get r ''name''" by auto
      from Cons.IH [OF r] obtain pre post where
        p: "xs = pre @ r # post" "\<forall>y \<in> set pre. truthy y \<longrightarrow> get y ''name'' \<noteq> get r ''name''"
        by blast
      with ne have "x # xs = (x # pre) @ r # post \<and>
          (\<forall>y \<in> set (x # pre). truthy y \<longrightarrow> get y ''name'' \<noteq> get r ''name'')" by simp
      then show ?thesis by blast
    qed
  next
    case False
    with Cons.prems have r: "r \<in> set (firsts xs seen)" by auto
    from firsts_subset [OF r] have k: "truthy (get r ''name'')" "get r ''name'' \<notin> set seen" by auto
    with False have ne: "truthy x \<longrightarrow> get x ''name'' \<noteq> get r ''name''" by auto
    from Cons.IH [OF r] obtain pre post where
      p: "xs = pre @ r # post" "\<forall>y \<in> set pre. truthy y \<longrightarrow> get y ''name'' \<noteq> get r ''name''"
      by blast
    with ne have "x # xs = (x # pre) @ r # post \<and>
        (\<forall>y \<in> set (x # pre). truthy y \<longrightarrow> get y ''name'' \<noteq> get r ''name'')" by simp
    then show ?thesis by blast
  qed
qed

lemma final_of_firsts: "final_of rt ops = sort_by (compare_names rt) (firsts ops [])"
  by (simp add: final_of_def dedupe_firsts comp_def)

lemma firsts_least_source:
  assumes kept: "r \<in> set (firsts ops [])"
    and p: "p \<in> set ops" and tp: "\<forall>x \<in> set ops. truthy x"
    and same: "get p ''name'' = get r ''name''"
    and strict: "sorted_wrt (<) (map source_text ops)"
  shows "source_text r \<le> source_text p"
proof -
  from firsts_first [OF kept] obtain pre post where
    split: "ops = pre @ r # post"
    and pre: "\<forall>x \<in> set pre. truthy x \<longrightarrow> get x ''name'' \<noteq> get r ''name''" by blast
  from p split have "p \<in> set pre \<or> p = r \<or> p \<in> set post" by auto
  then show ?thesis
  proof (elim disjE)
    assume "p \<in> set pre"
    with pre tp split same show ?thesis by auto
  next
    assume "p = r"
    then show ?thesis by simp
  next
    assume "p \<in> set post"
    with strict split have "source_text r < source_text p"
      by (auto simp: sorted_wrt_append)
    then show ?thesis by simp
  qed
qed

section \<open>The stages of main\<close>

lemma parse_pages_fst:
  "fst (parse_pages rt us (ops, err)) =
     ops @ filter truthy (map (returned rt) us)"
  by (induction us arbitrary: ops err) (simp_all add: returned_def split: prod.splits)

lemma parse_pages_snd:
  "snd (parse_pages rt us (ops, err)) =
     err @ concat (map (\<lambda>u. snd (parseOperatorPage rt u)) us)"
  by (induction us arbitrary: ops err) (simp_all split: prod.splits)

lemma parsed_operators_eq:
  "parsed_operators rt = filter truthy (map (returned rt) (discovered_urls rt))"
  by (simp add: parsed_operators_def parse_pages_fst)

lemma main_final: "final (main rt) = final_of rt (parsed_operators rt)"
  by (simp add: main_def Let_def case_prod_beta parsed_operators_def discovered_urls_def
      parse_pages_fst)

lemma main_written: "written (main rt) = stringify_array (final (main rt))"
  by (simp add: main_def Let_def case_prod_beta)

lemma main_errors:
  "errors (main rt) =
     snd (fetch_listings rt rarityPages ([], [])) @
     concat (map (\<lambda>u. snd (parseOperatorPage rt u)) (discovered_urls rt))"
  by (simp add: main_def Let_def case_prod_beta discovered_urls_def parse_pages_snd)

lemma parsed_is_returned:
  "r \<in> set (parsed_operators rt) \<longleftrightarrow>
   (\<exists>u \<in> set (discovered_urls rt). r = returned rt u \<and> truthy (returned rt u))"
  by (auto simp: parsed_operators_eq)

lemma parsed_truthy: "r \<in> set (parsed_operators rt) \<Longrightarrow> truthy r"
  by (simp add: parsed_operators_eq)

lemma parsed_name: "r \<in> set (parsed_operators rt) \<Longrightarrow> \<exists>s. get r ''name'' = Str s"
  by (auto simp: parsed_operators_eq name_returned)

lemma set_final: "set (final (main rt)) = set (firsts (parsed_operators rt) [])"
  by (simp add: main_final final_of_firsts set_sort_by)

lemma stringify_name:
  "member (stringify_element (operator_record rt doc u)) ''name'' =
     Some (JString (name_text (operator_record rt doc u)))"
  by (simp add: stringify_element_def name_text_def operator_record_def Let_def
      split: prod.split option.split)

lemma final_records:
  assumes "r \<in> set (final (main rt))"
  shows "\<exists>doc u. r = operator_record rt doc u"
proof -
  from assms have "r \<in> set (firsts (parsed_operators rt) [])" by (simp add: set_final)
  from firsts_subset [OF this] have "r \<in> set (parsed_operators rt)" by simp
  then obtain u where "r = returned rt u" "truthy (returned rt u)"
    by (auto simp: parsed_is_returned)
  then show ?thesis
    by (cases "fetchHtml rt u") (auto simp: returned_cases)
qed

lemma written_names_final: "written_names (written (main rt)) = map name_text (final (main rt))"
proof -
  have "(case member (stringify_element r) ''name'' of Some (JString s) \<Rightarrow> s | _ \<Rightarrow> []) = name_text r"
    if "r \<in> set (final (main rt))" for r
    using final_records [OF that] by (auto simp: stringify_name)
  then show ?thesis
    by (simp add: written_names_def main_written stringify_array_def comp_def)
qed

subsection \<open>The discovered addresses\<close>

lemma distinct_set_add: "distinct xs \<Longrightarrow> distinct (set_add x xs)"
  by (simp add: set_add_def)

lemma distinct_fold_set_add: "distinct xs \<Longrightarrow> distinct (fold set_add ys xs)"
  by (induction ys arbitrary: xs) (simp_all add: distinct_set_add)

lemma distinct_fetch_listings:
  "distinct urls \<Longrightarrow> distinct (fst (fetch_listings rt pages (urls, err)))"
  by (induction pages arbitrary: urls err)
     (simp_all add: Let_def distinct_fold_set_add split: sum.splits)

lemma discovered_urls_strict: "sorted_wrt (<) (discovered_urls rt)"
proof -
  have "distinct (fst (fetch_listings rt rarityPages ([], [])))"
    by (rule distinct_fetch_listings) simp
  then show ?thesis
    by (simp add: discovered_urls_def strict_sorted_iff)
qed

lemma parsed_sources_strict: "sorted_wrt (<) (map source_text (parsed_operators rt))"
proof -
  have "map source_text (filter truthy (map (returned rt) us)) =
        filter (\<lambda>u. truthy (returned rt u)) us" for us
    by (induction us) (simp_all add: source_returned)
  then have "map source_text (parsed_operators rt) =
        filter (\<lambda>u. truthy (returned rt u)) (discovered_urls rt)"
    by (simp add: parsed_operators_eq)
  with discovered_urls_strict [of rt] show ?thesis
    by (simp add: sorted_wrt_filter)
qed

subsection \<open>A site with three operators\<close>

lemma roster_urls:
  "discovered_urls (sample_platform (roster_web third)) = [amiya_url, blaze_url, ceobe_url]"
  by code_simp

lemma roster_fetch:
  "fetchHtml (sample_platform (roster_web third)) amiya_url =
     Inr (operator_page (js ''Amiya'') (js ''Rarity'') (js ''5''))"
  "fetchHtml (sample_platform (roster_web third)) blaze_url = not_found"
  "fetchHtml (sample_platform (roster_web third)) ceobe_url =
     Inr (operator_page third (js ''Rarity'') (js ''6''))"
  by code_simp+

lemma roster_names:
  "tidy (Some (page_name (operator_page (js ''Amiya'') l v))) = js ''Amiya''"
  "tidy (Some (page_name (operator_page (js ''Ceobe'') l v))) = js ''Ceobe''"
  by code_simp+

lemma roster_order: "amiya_url < blaze_url" "blaze_url < ceobe_url" "amiya_url < ceobe_url"
  by code_simp+

lemma roster_returned:
  "returned (sample_platform (roster_web third)) amiya_url =
     operator_record (sample_platform (roster_web third))
       (operator_page (js ''Amiya'') (js ''Rarity'') (js ''5'')) amiya_url"
  "returned (sample_platform (roster_web third)) blaze_url = Null"
  "returned (sample_platform (roster_web third)) ceobe_url =
     operator_record (sample_platform (roster_web third))
       (operator_page third (js ''Rarity'') (js ''6'')) ceobe_url"
  by (simp_all add: returned_cases roster_fetch not_found_def)

lemma roster_truthy:
  "truthy (returned (sample_platform (roster_web third)) amiya_url)"
  "\<not> truthy (returned (sample_platform (roster_web third)) blaze_url)"
  "truthy (returned (sample_platform (roster_web third)) ceobe_url)"
  by (simp_all add: roster_returned truthy_record)

lemma roster_parsed:
  "parsed_operators (sample_platform (roster_web third)) =
     [returned (sample_platform (roster_web third)) amiya_url,
      returned (sample_platform (roster_web third)) ceobe_url]"
  by (simp add: parsed_operators_eq roster_urls roster_truthy)

lemma roster_amiya_name:
  "get (returned (sample_platform (roster_web third)) amiya_url) ''name'' = Str (js ''Amiya'')"
  by (simp add: roster_returned get_name roster_names)

lemma roster_ceobe_name:
  "get (returned (sample_platform (roster_web (js ''Ceobe''))) ceobe_url) ''name'' = Str (js ''Ceobe'')"
  "get (returned (sample_platform (roster_web (js ''Amiya''))) ceobe_url) ''name'' = Str (js ''Amiya'')"
  by (simp_all add: roster_returned get_name roster_names)

lemma roster_sources_differ:
  "returned (sample_platform (roster_web third)) ceobe_url \<noteq>
   returned (sample_platform (roster_web third)) amiya_url"
proof
  assume "returned (sample_platform (roster_web third)) ceobe_url =
          returned (sample_platform (roster_web third)) amiya_url"
  then have "source_text (returned (sample_platform (roster_web third)) ceobe_url) =
             source_text (returned (sample_platform (roster_web third)) amiya_url)" by simp
  then have "ceobe_url = amiya_url"
    by (simp add: source_returned roster_truthy)
  with roster_order(3) show False by simp
qed

lemma js_literals_differ:
  "js ''Amiya'' \<noteq> []" "js ''Ceobe'' \<noteq> []" "js ''Ceobe'' \<noteq> js ''Amiya''"
  "js ''Amiya'' \<noteq> js ''Ceobe''"
  by (simp_all add: js_def)

lemma duplicate_final:
  "final (main (sample_platform (roster_web (js ''Amiya'')))) =
     [returned (sample_platform (roster_web (js ''Amiya''))) amiya_url]"
  by (simp add: main_final final_of_firsts roster_parsed roster_amiya_name roster_ceobe_name
      js_literals_differ roster_truthy sort_by_def)

section \<open>A page that fails\<close>

lemma parse_failure:
  "fetchHtml rt u = Inl msg \<Longrightarrow>
   parseOperatorPage rt u = (Null, [[js ''parseOperatorPage error for'', u, msg]])"
  by (simp add: parseOperatorPage_def)

lemma kept_when_name_is_own:
  assumes u: "u \<in> set (discovered_urls rt)"
    and ok: "truthy (returned rt u)"
    and name: "truthy (get (returned rt u) ''name'')"
    and own: "\<forall>v \<in> set (discovered_urls rt). v \<noteq> u \<and> truthy (returned rt v) \<longrightarrow>
                get (returned rt v) ''name'' \<noteq> get (returned rt u) ''name''"
  shows "returned rt u \<in> set (final (main rt))"
proof -
  let ?r = "returned rt u"
  from u ok have "?r \<in> set (parsed_operators rt)"
    by (auto simp: parsed_is_returned)
  from firsts_covers [OF this ok name, of "[]"]
  obtain r' where r': "r' \<in> set (firsts (parsed_operators rt) [])"
    and same: "get r' ''name'' = get ?r ''name''" by auto
  from firsts_subset [OF r'] have "r' \<in> set (parsed_operators rt)" by simp
  then obtain v where v: "v \<in> set (discovered_urls rt)" "r' = returned rt v"
    "truthy (returned rt v)" by (auto simp: parsed_is_returned)
  with own same have "v = u" by auto
  with v r' show ?thesis by (simp add: set_final)
qed

lemma failed_page_removed:
  "\<not> truthy (returned rt u) \<Longrightarrow>
   filter truthy (map (returned rt) (removeAll u us)) = filter truthy (map (returned rt) us)"
  by (induction us) auto

lemma fetched_pages_returned:
  "\<forall>v \<in> set us. \<not> isl (fetchHtml rt v) \<Longrightarrow>
   filter truthy (map (returned rt) us) = map (returned rt) us"
proof -
  assume a: "\<forall>v \<in> set us. \<not> isl (fetchHtml rt v)"
  have "truthy (returned rt v)" if "v \<in> set us" for v
  proof -
    from a that have "\<not> isl (fetchHtml rt v)" by simp
    then show ?thesis
      by (cases "fetchHtml rt v") (simp_all add: truthy_returned)
  qed
  then show ?thesis by (simp add: filter_id_conv)
qed

lemma discovered_urls_distinct: "distinct (discovered_urls rt)"
  using discovered_urls_strict [of rt] by (simp add: strict_sorted_iff)

lemma one_address_fewer:
  "u \<in> set (discovered_urls rt) \<Longrightarrow>
   length (removeAll u (discovered_urls rt)) = length (discovered_urls rt) - 1"
proof -
  assume u: "u \<in> set (discovered_urls rt)"
  have "removeAll u (discovered_urls rt) = remove1 u (discovered_urls rt)"
    using discovered_urls_distinct [of rt] by (simp add: distinct_remove1_removeAll)
  with u show ?thesis by (simp add: length_remove1)
qed

text \<open>
  C7: an exception thrown while a page is fetched or parsed (\<open>fetchHtml rt u = Inl msg\<close>)
  is caught in \<open>parseOperatorPage\<close>, which writes one line with the address and the
  message and returns \<open>null\<close>; the call has no other outcome. \<open>main\<close> leaves the \<open>null\<close>
  out of \<open>operators\<close> and goes on with the next address: the line is among the lines of
  the run, and \<open>operators\<close>, and with it the final collection, is what the other
  addresses alone give. Where every other address succeeds, \<open>operators\<close> holds the
  record of each of them, in their order, one fewer than there are addresses: the two
  records of the succeeding addresses for one failing address among three. These records
  pass through the reduction by name of lines 229 to 234 as in every run, so the record
  of a page is in the final collection whenever its name is not empty and no other
  fetched page has a record of the same name.
\<close>

theorem failed_page_is_omitted:
  "(fetchHtml rt u = Inl msg \<longrightarrow>
      parseOperatorPage rt u = (Null, [[js ''parseOperatorPage error for'', u, msg]])) \<and>
   (fetchHtml rt u = Inl msg \<and> u \<in> set (discovered_urls rt) \<longrightarrow>
      [js ''parseOperatorPage error for'', u, msg] \<in> set (errors (main rt)) \<and>
      returned rt u \<notin> set (parsed_operators rt) \<and>
      parsed_operators rt =
        filter truthy (map (returned rt) (removeAll u (discovered_urls rt))) \<and>
      final (main rt) =
        final_of rt (filter truthy (map (returned rt) (removeAll u (discovered_urls rt))))) \<and>
   (fetchHtml rt u = Inl msg \<and> u \<in> set (discovered_urls rt) \<and>
    (\<forall>w \<in> set (discovered_urls rt). w \<noteq> u \<longrightarrow> \<not> isl (fetchHtml rt w)) \<longrightarrow>
      parsed_operators rt = map (returned rt) (removeAll u (discovered_urls rt)) \<and>
      length (parsed_operators rt) = length (discovered_urls rt) - 1) \<and>
   parsed_operators rt = filter truthy (map (returned rt) (discovered_urls rt)) \<and>
   final (main rt) = final_of rt (parsed_operators rt) \<and>
   (v \<in> set (discovered_urls rt) \<and> fetchHtml rt v = Inr doc \<and>
    get (returned rt v) ''name'' \<noteq> Str [] \<and>
    (\<forall>w \<in> set (discovered_urls rt). w \<noteq> v \<and> truthy (returned rt w) \<longrightarrow>
       get (returned rt w) ''name'' \<noteq> get (returned rt v) ''name'') \<longrightarrow>
    returned rt v \<in> set (final (main rt)))"
proof -
  have a: "fetchHtml rt u = Inl msg \<longrightarrow>
      parseOperatorPage rt u = (Null, [[js ''parseOperatorPage error for'', u, msg]])"
    by (simp add: parse_failure)
  have b: "fetchHtml rt u = Inl msg \<and> u \<in> set (discovered_urls rt) \<longrightarrow>
      [js ''parseOperatorPage error for'', u, msg] \<in> set (errors (main rt)) \<and>
      returned rt u \<notin> set (parsed_operators rt) \<and>
      parsed_operators rt =
        filter truthy (map (returned rt) (removeAll u (discovered_urls rt))) \<and>
      final (main rt) =
        final_of rt (filter truthy (map (returned rt) (removeAll u (discovered_urls rt))))"
  proof
    assume h: "fetchHtml rt u = Inl msg \<and> u \<in> set (discovered_urls rt)"
    then have "[js ''parseOperatorPage error for'', u, msg] \<in> set (snd (parseOperatorPage rt u))"
      by (simp add: parse_failure)
    with h have 1: "[js ''parseOperatorPage error for'', u, msg] \<in> set (errors (main rt))"
      by (auto simp: main_errors)
    from h have n: "\<not> truthy (returned rt u)"
      by (simp add: returned_fail)
    then have 2: "returned rt u \<notin> set (parsed_operators rt)"
      by (auto simp: parsed_operators_eq)
    from n have 3: "parsed_operators rt =
        filter truthy (map (returned rt) (removeAll u (discovered_urls rt)))"
      by (simp add: parsed_operators_eq failed_page_removed)
    from 3 have 4: "final (main rt) =
        final_of rt (filter truthy (map (returned rt) (removeAll u (discovered_urls rt))))"
      by (simp add: main_final)
    from 1 2 3 4 show "[js ''parseOperatorPage error for'', u, msg] \<in> set (errors (main rt)) \<and>
      returned rt u \<notin> set (parsed_operators rt) \<and>
      parsed_operators rt =
        filter truthy (map (returned rt) (removeAll u (discovered_urls rt))) \<and>
      final (main rt) =
        final_of rt (filter truthy (map (returned rt) (removeAll u (discovered_urls rt))))"
      by blast
  qed
  have c: "fetchHtml rt u = Inl msg \<and> u \<in> set (discovered_urls rt) \<and>
    (\<forall>w \<in> set (discovered_urls rt). w \<noteq> u \<longrightarrow> \<not> isl (fetchHtml rt w)) \<longrightarrow>
      parsed_operators rt = map (returned rt) (removeAll u (discovered_urls rt)) \<and>
      length (parsed_operators rt) = length (discovered_urls rt) - 1"
  proof
    assume h: "fetchHtml rt u = Inl msg \<and> u \<in> set (discovered_urls rt) \<and>
      (\<forall>w \<in> set (discovered_urls rt). w \<noteq> u \<longrightarrow> \<not> isl (fetchHtml rt w))"
    then have n: "\<not> truthy (returned rt u)"
      by (simp add: returned_fail)
    from h have "\<forall>w \<in> set (removeAll u (discovered_urls rt)). \<not> isl (fetchHtml rt w)"
      by simp
    from fetched_pages_returned [OF this] n
    have 1: "parsed_operators rt = map (returned rt) (removeAll u (discovered_urls rt))"
      by (simp add: parsed_operators_eq failed_page_removed)
    from h have "length (removeAll u (discovered_urls rt)) = length (discovered_urls rt) - 1"
      by (simp add: one_address_fewer)
    with 1 show "parsed_operators rt = map (returned rt) (removeAll u (discovered_urls rt)) \<and>
      length (parsed_operators rt) = length (discovered_urls rt) - 1"
      by simp
  qed
  have d: "v \<in> set (discovered_urls rt) \<and> fetchHtml rt v = Inr doc \<and>
    get (returned rt v) ''name'' \<noteq> Str [] \<and>
    (\<forall>w \<in> set (discovered_urls rt). w \<noteq> v \<and> truthy (returned rt w) \<longrightarrow>
       get (returned rt w) ''name'' \<noteq> get (returned rt v) ''name'') \<longrightarrow>
    returned rt v \<in> set (final (main rt))"
  proof
    assume h: "v \<in> set (discovered_urls rt) \<and> fetchHtml rt v = Inr doc \<and>
      get (returned rt v) ''name'' \<noteq> Str [] \<and>
      (\<forall>w \<in> set (discovered_urls rt). w \<noteq> v \<and> truthy (returned rt w) \<longrightarrow>
         get (returned rt w) ''name'' \<noteq> get (returned rt v) ''name'')"
    then have ok: "truthy (returned rt v)" by (auto simp: truthy_returned)
    from name_returned [OF ok] h have "truthy (get (returned rt v) ''name'')" by auto
    with h ok show "returned rt v \<in> set (final (main rt))"
      by (intro kept_when_name_is_own) auto
  qed
  have e: "parsed_operators rt = filter truthy (map (returned rt) (discovered_urls rt))"
    by (simp add: parsed_operators_eq)
  have f: "final (main rt) = final_of rt (parsed_operators rt)"
    by (simp add: main_final)
  from a b c d e f show ?thesis
    by blast
qed

theorem failed_page_is_omitted_witness:
  "discovered_urls (sample_platform (roster_web (js ''Ceobe''))) = [amiya_url, blaze_url, ceobe_url] \<and>
   fetchHtml (sample_platform (roster_web (js ''Ceobe''))) blaze_url = not_found \<and>
   parseOperatorPage (sample_platform (roster_web (js ''Ceobe''))) blaze_url =
     (Null, [[js ''parseOperatorPage error for'', blaze_url, js ''Request failed with status code 404'']]) \<and>
   [js ''parseOperatorPage error for'', blaze_url, js ''Request failed with status code 404'']
     \<in> set (errors (main (sample_platform (roster_web (js ''Ceobe''))))) \<and>
   parsed_operators (sample_platform (roster_web (js ''Ceobe''))) =
     [returned (sample_platform (roster_web (js ''Ceobe''))) amiya_url,
      returned (sample_platform (roster_web (js ''Ceobe''))) ceobe_url] \<and>
   final (main (sample_platform (roster_web (js ''Ceobe'')))) =
     final_of (sample_platform (roster_web (js ''Ceobe'')))
       [returned (sample_platform (roster_web (js ''Ceobe''))) amiya_url,
        returned (sample_platform (roster_web (js ''Ceobe''))) ceobe_url] \<and>
   get (returned (sample_platform (roster_web (js ''Ceobe''))) amiya_url) ''name'' = Str (js ''Amiya'') \<and>
   get (returned (sample_platform (roster_web (js ''Ceobe''))) ceobe_url) ''name'' = Str (js ''Ceobe'') \<and>
   returned (sample_platform (roster_web (js ''Ceobe''))) amiya_url
     \<in> set (final (main (sample_platform (roster_web (js ''Ceobe''))))) \<and>
   returned (sample_platform (roster_web (js ''Ceobe''))) ceobe_url
     \<in> set (final (main (sample_platform (roster_web (js ''Ceobe'')))))"
proof -
  let ?P = "sample_platform (roster_web (js ''Ceobe''))"
  let ?msg = "js ''Request failed with status code 404''"
  have f: "fetchHtml ?P blaze_url = Inl ?msg"
    by (simp add: roster_fetch not_found_def)
  have o: "amiya_url \<noteq> blaze_url" "blaze_url \<noteq> ceobe_url" "amiya_url \<noteq> ceobe_url"
    "blaze_url \<noteq> amiya_url" "ceobe_url \<noteq> blaze_url"
    using roster_order by simp_all
  note t1 = failed_page_is_omitted [of ?P blaze_url ?msg amiya_url
      "operator_page (js ''Amiya'') (js ''Rarity'') (js ''5'')"]
  note t2 = failed_page_is_omitted [of ?P blaze_url ?msg ceobe_url
      "operator_page (js ''Ceobe'') (js ''Rarity'') (js ''6'')"]
  have ha: "amiya_url \<in> set (discovered_urls ?P) \<and>
      fetchHtml ?P amiya_url = Inr (operator_page (js ''Amiya'') (js ''Rarity'') (js ''5'')) \<and>
      get (returned ?P amiya_url) ''name'' \<noteq> Str [] \<and>
      (\<forall>w \<in> set (discovered_urls ?P). w \<noteq> amiya_url \<and> truthy (returned ?P w) \<longrightarrow>
         get (returned ?P w) ''name'' \<noteq> get (returned ?P amiya_url) ''name'')"
    by (simp add: roster_urls roster_fetch roster_amiya_name roster_ceobe_name js_literals_differ
        roster_truthy)
  have hc: "ceobe_url \<in> set (discovered_urls ?P) \<and>
      fetchHtml ?P ceobe_url = Inr (operator_page (js ''Ceobe'') (js ''Rarity'') (js ''6'')) \<and>
      get (returned ?P ceobe_url) ''name'' \<noteq> Str [] \<and>
      (\<forall>w \<in> set (discovered_urls ?P). w \<noteq> ceobe_url \<and> truthy (returned ?P w) \<longrightarrow>
         get (returned ?P w) ''name'' \<noteq> get (returned ?P ceobe_url) ''name'')"
    by (simp add: roster_urls roster_fetch roster_amiya_name roster_ceobe_name js_literals_differ
        roster_truthy)
  have hb: "fetchHtml ?P blaze_url = Inl ?msg \<and> blaze_url \<in> set (discovered_urls ?P)"
    using f by (simp add: roster_urls)
  have hs: "fetchHtml ?P blaze_url = Inl ?msg \<and> blaze_url \<in> set (discovered_urls ?P) \<and>
      (\<forall>w \<in> set (discovered_urls ?P). w \<noteq> blaze_url \<longrightarrow> \<not> isl (fetchHtml ?P w))"
    using f by (simp add: roster_urls roster_fetch)
  have r: "removeAll blaze_url (discovered_urls ?P) = [amiya_url, ceobe_url]"
    using o by (simp add: roster_urls)
  from t1 f have 1: "parseOperatorPage ?P blaze_url =
      (Null, [[js ''parseOperatorPage error for'', blaze_url, ?msg]])" by blast
  from t1 hb have 2: "[js ''parseOperatorPage error for'', blaze_url, ?msg]
      \<in> set (errors (main ?P))" by blast
  from t1 ha have 3: "returned ?P amiya_url \<in> set (final (main ?P))" by blast
  from t2 hc have 4: "returned ?P ceobe_url \<in> set (final (main ?P))" by blast
  from t1 hs have "parsed_operators ?P = map (returned ?P) (removeAll blaze_url (discovered_urls ?P))"
    by blast
  with r have 5: "parsed_operators ?P = [returned ?P amiya_url, returned ?P ceobe_url]"
    by simp
  from t1 have "final (main ?P) = final_of ?P (parsed_operators ?P)" by blast
  with 5 have 6: "final (main ?P) = final_of ?P [returned ?P amiya_url, returned ?P ceobe_url]"
    by simp
  from 1 2 3 4 5 6 show ?thesis
    by (simp add: roster_urls roster_fetch roster_amiya_name roster_ceobe_name)
qed

section \<open>The final collection\<close>

text \<open>
  C2: the names of the final collection are distinct. Every record of it is a parsed
  record with a name that is not empty, and among the parsed records of that name it
  is the one with the least source address, in the order of \<open>urls.sort()\<close>; the
  parsed records come in that order, their sources strictly increasing. Every name
  of a parsed record that is not empty is the name of a record of the collection, and
  no parsed record with an empty name is in it.
\<close>

theorem names_unique_first_wins:
  "distinct (map (\<lambda>r. get r ''name'') (final (main rt))) \<and>
   (\<forall>r \<in> set (final (main rt)).
      r \<in> set (parsed_operators rt) \<and> get r ''name'' \<noteq> Str [] \<and>
      (\<forall>p \<in> set (parsed_operators rt).
         get p ''name'' = get r ''name'' \<longrightarrow> source_text r \<le> source_text p)) \<and>
   (\<forall>p \<in> set (parsed_operators rt).
      get p ''name'' \<noteq> Str [] \<longrightarrow>
      (\<exists>r \<in> set (final (main rt)). get r ''name'' = get p ''name'')) \<and>
   (\<forall>p \<in> set (parsed_operators rt). get p ''name'' = Str [] \<longrightarrow> p \<notin> set (final (main rt))) \<and>
   sorted_wrt (<) (map source_text (parsed_operators rt))"
proof -
  let ?ops = "parsed_operators rt"
  have all_truthy: "\<forall>x \<in> set ?ops. truthy x"
    by (simp add: parsed_truthy)
  have d: "distinct (map (\<lambda>r. get r ''name'') (final (main rt)))"
    by (simp add: main_final final_of_firsts distinct_map_sort_by firsts_distinct)
  have k: "\<forall>r \<in> set (final (main rt)).
      r \<in> set ?ops \<and> get r ''name'' \<noteq> Str [] \<and>
      (\<forall>p \<in> set ?ops. get p ''name'' = get r ''name'' \<longrightarrow> source_text r \<le> source_text p)"
  proof
    fix r assume "r \<in> set (final (main rt))"
    then have r: "r \<in> set (firsts ?ops [])" by (simp add: set_final)
    from firsts_subset [OF r] have "r \<in> set ?ops" "truthy (get r ''name'')" by simp_all
    moreover from this have "get r ''name'' \<noteq> Str []" by auto
    moreover have "\<forall>p \<in> set ?ops. get p ''name'' = get r ''name'' \<longrightarrow>
        source_text r \<le> source_text p"
      using firsts_least_source [OF r _ all_truthy _ parsed_sources_strict] by blast
    ultimately show "r \<in> set ?ops \<and> get r ''name'' \<noteq> Str [] \<and>
      (\<forall>p \<in> set ?ops. get p ''name'' = get r ''name'' \<longrightarrow> source_text r \<le> source_text p)"
      by simp
  qed
  have c: "\<forall>p \<in> set ?ops. get p ''name'' \<noteq> Str [] \<longrightarrow>
      (\<exists>r \<in> set (final (main rt)). get r ''name'' = get p ''name'')"
  proof (intro ballI impI)
    fix p assume p: "p \<in> set ?ops" and ne: "get p ''name'' \<noteq> Str []"
    from parsed_name [OF p] ne have "truthy (get p ''name'')" by auto
    from firsts_covers [OF p parsed_truthy [OF p] this, of "[]"]
    show "\<exists>r \<in> set (final (main rt)). get r ''name'' = get p ''name''"
      by (auto simp: set_final)
  qed
  have e: "\<forall>p \<in> set ?ops. get p ''name'' = Str [] \<longrightarrow> p \<notin> set (final (main rt))"
    using k by blast
  from d k c e parsed_sources_strict [of rt] show ?thesis by blast
qed

theorem names_unique_first_wins_witness:
  "parsed_operators (sample_platform (roster_web (js ''Amiya''))) =
     [returned (sample_platform (roster_web (js ''Amiya''))) amiya_url,
      returned (sample_platform (roster_web (js ''Amiya''))) ceobe_url] \<and>
   get (returned (sample_platform (roster_web (js ''Amiya''))) amiya_url) ''name'' = Str (js ''Amiya'') \<and>
   get (returned (sample_platform (roster_web (js ''Amiya''))) ceobe_url) ''name'' = Str (js ''Amiya'') \<and>
   final (main (sample_platform (roster_web (js ''Amiya'')))) =
     [returned (sample_platform (roster_web (js ''Amiya''))) amiya_url] \<and>
   distinct (map (\<lambda>r. get r ''name'') (final (main (sample_platform (roster_web (js ''Amiya'')))))) \<and>
   source_text (returned (sample_platform (roster_web (js ''Amiya''))) amiya_url) = amiya_url \<and>
   source_text (returned (sample_platform (roster_web (js ''Amiya''))) ceobe_url) = ceobe_url \<and>
   source_text (returned (sample_platform (roster_web (js ''Amiya''))) amiya_url)
     \<le> source_text (returned (sample_platform (roster_web (js ''Amiya''))) ceobe_url)"
proof -
  let ?P = "sample_platform (roster_web (js ''Amiya''))"
  note t = names_unique_first_wins [of ?P]
  have in_final: "returned ?P amiya_url \<in> set (final (main ?P))"
    by (simp add: duplicate_final)
  have in_parsed: "returned ?P ceobe_url \<in> set (parsed_operators ?P)"
    by (simp add: roster_parsed)
  have same: "get (returned ?P ceobe_url) ''name'' = get (returned ?P amiya_url) ''name''"
    by (simp add: roster_amiya_name roster_ceobe_name)
  from t have d: "distinct (map (\<lambda>r. get r ''name'') (final (main ?P)))" by blast
  from t in_final in_parsed same
  have le: "source_text (returned ?P amiya_url) \<le> source_text (returned ?P ceobe_url)" by blast
  from d le show ?thesis
    by (simp add: roster_parsed roster_amiya_name roster_ceobe_name duplicate_final
        source_returned roster_truthy)
qed

lemma compare_names_text:
  "get a ''name'' = Str x \<Longrightarrow> get b ''name'' = Str y \<Longrightarrow>
   compare_names rt a b = localeCompare rt x y"
  by (simp add: compare_names_def)

text \<open>
  C3: the sequence of names in the array that is written is non-decreasing under
  \<open>localeCompare\<close>, which is taken to be a consistent comparison function. The names
  written are the names of the final collection in its order, all of them strings.
\<close>

theorem final_sorted_by_name:
  assumes "consistent_comparator (localeCompare rt)"
  shows "sorted_wrt (\<lambda>a b. localeCompare rt a b \<le> 0) (written_names (written (main rt))) \<and>
         written_names (written (main rt)) = map name_text (final (main rt)) \<and>
         (\<forall>r \<in> set (final (main rt)). get r ''name'' = Str (name_text r))"
proof -
  let ?S = "{r. get r ''name'' = Str (name_text r)}"
  let ?xs = "firsts (parsed_operators rt) []"
  have cmp: "compare_names rt a b = localeCompare rt (name_text a) (name_text b)"
    if "a \<in> ?S" "b \<in> ?S" for a b
    using that compare_names_text [of a "name_text a" b "name_text b" rt] by simp
  from assms have anti: "\<And>x y. (localeCompare rt x y < 0) = (0 < localeCompare rt y x)"
    and tr: "\<And>x y z. localeCompare rt x y \<le> 0 \<Longrightarrow> localeCompare rt y z \<le> 0 \<Longrightarrow>
               localeCompare rt x z \<le> 0"
    unfolding consistent_comparator_def by blast+
  have tot: "localeCompare rt x y \<le> 0 \<or> localeCompare rt y x \<le> 0" for x y
    using anti [of y x] by linarith
  have sub: "set ?xs \<subseteq> ?S"
  proof
    fix r assume "r \<in> set ?xs"
    from firsts_subset [OF this] have "r \<in> set (parsed_operators rt)" by simp
    from parsed_name [OF this] show "r \<in> ?S" by (auto simp: name_text_def)
  qed
  have "sorted_wrt (\<lambda>a b. compare_names rt a b \<le> 0) (sort_by (compare_names rt) ?xs)"
  proof (rule sorted_sort_by [where S = ?S])
    show "compare_names rt a b \<le> 0 \<or> compare_names rt b a \<le> 0" if "a \<in> ?S" "b \<in> ?S" for a b
      using that tot by (simp add: cmp)
    show "compare_names rt a c \<le> 0"
      if "a \<in> ?S" "b \<in> ?S" "c \<in> ?S" "compare_names rt a b \<le> 0" "compare_names rt b c \<le> 0"
      for a b c
      using that tr [of "name_text a" "name_text b" "name_text c"] by (simp add: cmp)
    show "set ?xs \<subseteq> ?S" by (rule sub)
  qed
  then have s: "sorted_wrt (\<lambda>a b. compare_names rt a b \<le> 0) (final (main rt))"
    by (simp add: main_final final_of_firsts)
  have mem: "\<forall>r \<in> set (final (main rt)). get r ''name'' = Str (name_text r)"
    using sub by (auto simp: set_final)
  have "sorted_wrt (\<lambda>a b. localeCompare rt (name_text a) (name_text b) \<le> 0) (final (main rt))"
    by (rule sorted_wrt_mono_rel [OF _ s]) (use mem cmp in auto)
  with mem show ?thesis by (simp add: sorted_wrt_map written_names_final)
qed

lemma unit_compare_consistent: "consistent_comparator unit_compare"
  by (auto simp: consistent_comparator_def unit_compare_def split: if_splits)

lemma localeCompare_sample: "localeCompare (sample_platform web) = unit_compare"
  by (simp add: sample_platform_def)

lemma roster_final_names:
  "map name_text (final (main (sample_platform (roster_web (js ''Ceobe''))))) = [js ''Amiya'', js ''Ceobe'']"
proof -
  let ?P = "sample_platform (roster_web (js ''Ceobe''))"
  have "compare_names ?P (returned ?P amiya_url) (returned ?P ceobe_url) = unit_compare (js ''Amiya'') (js ''Ceobe'')"
    by (simp add: compare_names_text [OF roster_amiya_name roster_ceobe_name(1)] localeCompare_sample)
  also have "\<dots> = - 1" by code_simp
  finally show ?thesis
    by (simp add: main_final final_of_firsts roster_parsed roster_amiya_name roster_ceobe_name
      js_literals_differ roster_truthy sort_by_def name_text_def)
qed

theorem final_sorted_by_name_witness:
  "consistent_comparator (localeCompare (sample_platform (roster_web (js ''Ceobe'')))) \<and>
   written_names (written (main (sample_platform (roster_web (js ''Ceobe''))))) =
     [js ''Amiya'', js ''Ceobe''] \<and>
   sorted_wrt (\<lambda>a b. localeCompare (sample_platform (roster_web (js ''Ceobe''))) a b \<le> 0)
     (written_names (written (main (sample_platform (roster_web (js ''Ceobe''))))))"
proof -
  let ?P = "sample_platform (roster_web (js ''Ceobe''))"
  have c: "consistent_comparator (localeCompare ?P)"
    by (simp add: localeCompare_sample unit_compare_consistent)
  note t = final_sorted_by_name [OF c]
  from t have s: "sorted_wrt (\<lambda>a b. localeCompare ?P a b \<le> 0) (written_names (written (main ?P)))"
    by blast
  from t have "written_names (written (main ?P)) = map name_text (final (main ?P))"
    by blast
  then have n: "written_names (written (main ?P)) = [js ''Amiya'', js ''Ceobe'']"
    by (simp add: roster_final_names)
  from c n s show ?thesis by blast
qed

section \<open>A rarity beyond the range of numbers\<close>

lemma decimal_zeros:
  "foldl (\<lambda>a c. 10 * a + (c - 48)) (a::nat) (replicate n 48) = a * 10 ^ n"
  by (induction n arbitrary: a) simp_all

lemma decimal_value_huge: "decimal_value huge_digits = 10 ^ 309"
  by (simp add: decimal_value_def huge_digits_def decimal_zeros)

lemma round_down_lower:
  assumes k: "(2::nat) ^ k \<le> n" and e: "(2::nat) ^ e \<le> n"
  shows "(2::nat) ^ k \<le> n div 2 ^ e * 2 ^ e"
proof (cases "e \<le> k")
  case True
  then have split: "(2::nat) ^ k = 2 ^ (k - e) * 2 ^ e"
    by (simp flip: power_add)
  then have "(2::nat) ^ k div 2 ^ e = 2 ^ (k - e)" by simp
  moreover have "(2::nat) ^ k div 2 ^ e \<le> n div 2 ^ e"
    by (rule div_le_mono) (rule k)
  ultimately have "(2::nat) ^ (k - e) * 2 ^ e \<le> n div 2 ^ e * 2 ^ e"
    by (simp add: mult_le_mono1)
  with split show ?thesis by simp
next
  case False
  from e have "1 \<le> n div 2 ^ e"
    by (simp add: div_greater_zero_iff Suc_le_eq)
  then have "(2::nat) ^ e * 1 \<le> 2 ^ e * (n div 2 ^ e)"
    by (rule mult_le_mono2)
  then have "(2::nat) ^ e \<le> n div 2 ^ e * 2 ^ e"
    by (simp add: mult.commute)
  moreover from False have "(2::nat) ^ k \<le> 2 ^ e"
    by (intro power_increasing) simp_all
  ultimately show ?thesis by (rule le_trans [rotated])
qed

lemma to_double_Infinity:
  assumes "2 ^ 1024 \<le> n"
  shows "to_double n = Infinity"
proof -
  let ?e = "bitlen n - 53"
  from assms have pos: "0 < n"
    by (metis less_le_trans zero_less_numeral zero_less_power)
  have "(2::nat) ^ 53 \<le> 2 ^ 1024" by (rule power_increasing) simp_all
  with assms have big: "\<not> n < 2 ^ 53" by linarith
  have "(2::nat) ^ ?e \<le> 2 ^ (bitlen n - 1)" by (rule power_increasing) simp_all
  also have "\<dots> \<le> n" by (rule bitlen_lower [OF pos])
  finally have e: "(2::nat) ^ ?e \<le> n" .
  have low: "(2::nat) ^ 1024 \<le> n div 2 ^ ?e * 2 ^ ?e"
    by (rule round_down_lower [OF assms e])
  have "n div 2 ^ ?e * 2 ^ ?e \<le> (n div 2 ^ ?e + 1) * 2 ^ ?e"
    by (rule mult_le_mono1) simp
  with low have up: "(2::nat) ^ 1024 \<le> (n div 2 ^ ?e + 1) * 2 ^ ?e"
    by (rule le_trans)
  from big low up show ?thesis
    by (auto simp: to_double_def Let_def)
qed

lemma Number_huge: "Number huge_digits = Infinity"
proof -
  have "(2::nat) ^ 1024 \<le> 10 ^ 309" by simp
  then show ?thesis by (simp add: Number_def decimal_value_huge to_double_Infinity)
qed

lemma huge_urls: "discovered_urls (sample_platform huge_web) = [amiya_url]"
  by code_simp

lemma huge_fetch: "fetchHtml (sample_platform huge_web) amiya_url = Inr huge_page"
  by code_simp

lemma huge_strategy1:
  "strategy1 (sample_platform web) huge_page (js ''Rarity'') = huge_digits"
  by code_simp

lemma huge_nonempty: "huge_digits \<noteq> []"
  by (simp add: huge_digits_def)

lemma huge_rarityRaw: "rarityRaw (sample_platform web) huge_page = huge_digits"
  by (rule rarityRaw_first [OF huge_strategy1 huge_nonempty])

lemma huge_scan: "star_count huge_digits = 0" "match_digits huge_digits = Some huge_digits"
  by code_simp+

lemma huge_rarity_of: "rarity_of huge_digits = Num Infinity"
  by (simp add: rarity_of_def huge_scan or_else_def Number_huge)

lemma huge_name: "tidy (Some (page_name huge_page)) = js ''Amiya''"
  by code_simp

lemma huge_returned:
  "returned (sample_platform huge_web) amiya_url =
     operator_record (sample_platform huge_web) huge_page amiya_url"
  by (rule returned_ok [OF huge_fetch])

lemma huge_record_rarity:
  "get (returned (sample_platform huge_web) amiya_url) ''rarity'' = Num Infinity"
  by (simp add: huge_returned get_rarity huge_rarityRaw huge_rarity_of or_else_def)

lemma huge_final:
  "final (main (sample_platform huge_web)) = [returned (sample_platform huge_web) amiya_url]"
proof -
  have n: "get (returned (sample_platform huge_web) amiya_url) ''name'' = Str (js ''Amiya'')"
    by (simp add: huge_returned get_name huge_name)
  have t: "truthy (returned (sample_platform huge_web) amiya_url)"
    by (simp add: huge_returned truthy_record)
  from n t show ?thesis
    by (simp add: main_final final_of_firsts parsed_operators_eq huge_urls js_literals_differ
        sort_by_def)
qed

lemma stringify_rarity:
  "member (stringify_element (operator_record rt doc u)) ''rarity'' =
     stringify (get (operator_record rt doc u) ''rarity'')"
  by (simp add: stringify_element_def operator_record_def Let_def split: prod.split option.split)

text \<open>
  In memory the record that the page parser returns has every declared field: the
  rarity is a number or the empty string, every other field is a string.
\<close>

lemma record_fields_present:
  assumes "fetchHtml rt u = Inr doc"
  shows "(\<exists>s. get (returned rt u) ''name'' = Str s) \<and>
         (\<exists>s. get (returned rt u) ''gender'' = Str s) \<and>
         (\<exists>s. get (returned rt u) ''class'' = Str s) \<and>
         (\<exists>s. get (returned rt u) ''archetype'' = Str s) \<and>
         (\<exists>s. get (returned rt u) ''faction'' = Str s) \<and>
         (\<exists>s. get (returned rt u) ''race'' = Str s) \<and>
         (\<exists>s. get (returned rt u) ''region'' = Str s) \<and>
         (get (returned rt u) ''rarity'' = Str [] \<or> (\<exists>n. get (returned rt u) ''rarity'' = Num n)) \<and>
         (\<exists>s. get (get (returned rt u) ''release'') ''date_global'' = Str s) \<and>
         (\<exists>s. get (get (returned rt u) ''release'') ''event_name'' = Str s) \<and>
         (\<exists>s. get (get (returned rt u) ''image'') ''portrait'' = Str s) \<and>
         (\<exists>s. get (get (returned rt u) ''image'') ''full'' = Str s) \<and>
         get (returned rt u) ''source'' = Str u"
proof -
  have "get (returned rt u) ''rarity'' = Str [] \<or> (\<exists>n. get (returned rt u) ''rarity'' = Num n)"
    using rarity_of_cases [of "rarityRaw rt doc"]
    by (auto simp: rarity_field [OF assms] or_else_def)
  then show ?thesis
    by (simp add: returned_ok [OF assms] operator_record_def Let_def split: prod.split)
qed

text \<open>
  C1 fails on the code: for a page whose rarity text is the digit 1 followed by 309
  zeros, \<open>Number\<close> gives \<open>Infinity\<close>, which \<open>rarity || ""\<close> keeps, and
  \<open>JSON.stringify\<close> writes \<open>null\<close> for it: the rarity of the persisted record is
  \<open>null\<close>.
\<close>

theorem huge_rarity_is_written_as_null:
  "map (\<lambda>r. get r ''rarity'') (final (main (sample_platform huge_web))) = [Num Infinity] \<and>
   map (\<lambda>j. member j ''rarity'') (items (written (main (sample_platform huge_web)))) = [Some JNull]"
proof -
  have "member (stringify_element (returned (sample_platform huge_web) amiya_url)) ''rarity'' =
          Some JNull"
    using stringify_rarity [of "sample_platform huge_web" huge_page amiya_url]
    by (simp add: huge_record_rarity flip: huge_returned)
  then show ?thesis
    by (simp add: main_written huge_final huge_record_rarity stringify_array_def)
qed

end
